theory Spec2Isabelle
  imports Complex_Main "HOL-Library.Sublist"
begin

section \<open>The LiteLLM provider adapter and its model-listing route\<close>

text \<open>
  A shallow embedding of the LiteLLM provider (\<^verbatim>\<open>litellmProvider\<close>: \<^verbatim>\<open>initialize\<close> and
  \<^verbatim>\<open>executeRequest\<close>) and of the \<^verbatim>\<open>GET\<close> handler of the models route.

  Conventions.
  \<^item> A JavaScript object type is a record; its fields keep the source's names behind a
    short prefix naming the record (\<open>rq_\<close> for the request, \<open>pl_\<close> for the payload, ...),
    since record fields share one name space.
  \<^item> An optional or possibly \<^verbatim>\<open>undefined\<close> field is an \<open>option\<close>.
  \<^item> A thrown exception is the \<open>Inl\<close> of a sum.
  \<^item> Everything the code reads from outside (environment variables, the HTTP client,
    the chat-completion client, the tool invoker, the clock, helpers imported from
    modules that are not part of the sources at hand) is a field of an environment
    record. Calls whose answer may differ from one call to the next carry the index
    of the call.
  \<^item> Token counts are natural numbers and timestamps are integers (milliseconds).
\<close>

subsection \<open>Strings\<close>

text \<open>\<^verbatim>\<open>s.replace(/\/$/, '')\<close>: one trailing slash is removed.\<close>

definition stripTrailingSlash :: "string \<Rightarrow> string" where
  "stripTrailingSlash s = (if s \<noteq> [] \<and> last s = CHR ''/'' then butlast s else s)"

text \<open>\<^verbatim>\<open>s.replace(/^litellm\//, '')\<close>: the prefix is removed when the string starts with it.\<close>

definition stripLitellmPrefix :: "string \<Rightarrow> string" where
  "stripLitellmPrefix s = (if take 8 s = ''litellm/'' then drop 8 s else s)"

text \<open>The template \<^verbatim>\<open>`litellm/${id}`\<close>.\<close>

definition litellmId :: "string \<Rightarrow> string" where
  "litellmId i = ''litellm/'' @ i"

text \<open>\<^verbatim>\<open>x || ''\<close> on an optional string, and the truth value of an optional string.\<close>

definition orEmpty :: "string option \<Rightarrow> string" where
  "orEmpty x = (case x of None \<Rightarrow> [] | Some s \<Rightarrow> s)"

definition truthyStr :: "string option \<Rightarrow> bool" where
  "truthyStr x = (case x of None \<Rightarrow> False | Some s \<Rightarrow> s \<noteq> [])"

text \<open>Decimal digits of a number, as a template literal prints it.\<close>

function string_of_nat :: "nat \<Rightarrow> string" where
  "string_of_nat n =
     (if n < 10 then [char_of (48 + n)]
      else string_of_nat (n div 10) @ [char_of (48 + n mod 10)])"
  by pat_completeness auto
termination
  by (relation "measure id") auto

declare string_of_nat.simps [simp del]

text \<open>
  \<^verbatim>\<open>content.replace(/```json\n?|\n?```/g, '').trim()\<close>: the scan goes left to right; at each
  position the first alternative is tried before the second, and \<^verbatim>\<open>\n?\<close> is greedy.
  \<open>trim\<close> removes the ASCII white space at both ends.
\<close>

definition fence :: string where
  "fence = [CHR 0x60, CHR 0x60, CHR 0x60]"

function removeFences :: "string \<Rightarrow> string" where
  "removeFences s =
     (if s = [] then []
      else if take 7 s = fence @ ''json'' then
        (let r = drop 7 s in removeFences (if r \<noteq> [] \<and> hd r = CHR 0x0A then tl r else r))
      else if take 4 s = CHR 0x0A # fence then removeFences (drop 4 s)
      else if take 3 s = fence then removeFences (drop 3 s)
      else hd s # removeFences (tl s))"
  by pat_completeness auto
termination
  by (relation "measure length") (auto simp: Let_def intro: diff_less_mono2)

declare removeFences.simps [simp del]

definition isSpace :: "char \<Rightarrow> bool" where
  "isSpace c = (c \<in> set [CHR 0x20, CHR 0x09, CHR 0x0A, CHR 0x0B, CHR 0x0C, CHR 0x0D])"

definition trim :: "string \<Rightarrow> string" where
  "trim s = rev (dropWhile isSpace (rev (dropWhile isSpace s)))"

definition cleanFences :: "string \<Rightarrow> string" where
  "cleanFences s = trim (removeFences s)"

subsection \<open>Thrown values\<close>

text \<open>
  The \<^verbatim>\<open>error\<close> property some thrown values carry (the provider's error object, with
  its \<^verbatim>\<open>message\<close>, \<^verbatim>\<open>type\<close> and \<^verbatim>\<open>code\<close>).
\<close>

record provider_error =
  pe_message :: "string option"
  pe_type :: "string option"
  pe_code :: "int option"

text \<open>
  A thrown value: an \<^verbatim>\<open>Error\<close> instance with its message, or any other value with what
  \<^verbatim>\<open>String(error)\<close> gives; both with the \<^verbatim>\<open>error\<close> property when it is an object.
\<close>

datatype thrown =
  ErrorObj string "provider_error option"
| OtherThrown string "provider_error option"

subsection \<open>Configuration and HTTP\<close>

record config =
  LITELLM_BASE_URL :: "string option"
  LITELLM_API_KEY :: "string option"

text \<open>
  The answer of \<^verbatim>\<open>fetch\<close>: \<^verbatim>\<open>ok\<close>, the status, and what \<^verbatim>\<open>response.json()\<close> gives:
  it throws, or it is an object whose \<^verbatim>\<open>data\<close> is the list of model ids (\<open>None\<close> when
  \<^verbatim>\<open>data\<close> is missing, where \<^verbatim>\<open>data.data.map\<close> throws a TypeError).
\<close>

record http_response =
  hr_ok :: bool
  hr_status :: nat
  hr_json :: "thrown + string list option"

type_synonym headers = "(string \<times> string) list"

text \<open>
  What the models route reads: the environment variables, \<^verbatim>\<open>fetch\<close>, and the two
  blacklist helpers of \<^verbatim>\<open>@/providers/utils\<close>, which are not among the sources and are
  taken as they come.
\<close>

record route_env =
  re_config :: config
  re_fetch :: "string \<Rightarrow> headers \<Rightarrow> thrown + http_response"
  re_isProviderBlacklisted :: "string \<Rightarrow> bool"
  re_filterBlacklistedModels :: "string list \<Rightarrow> string list"

text \<open>The JSON answer of the route: \<^verbatim>\<open>NextResponse.json(body)\<close> has status 200.\<close>

record json_response =
  jr_status :: nat
  jr_models :: "string list"

definition NextResponse_json :: "string list \<Rightarrow> json_response" where
  "NextResponse_json ms = \<lparr>jr_status = 200, jr_models = ms\<rparr>"

definition requestHeaders :: "config \<Rightarrow> headers" where
  "requestHeaders c =
     [(''Content-Type'', ''application/json'')] @
     (if truthyStr (LITELLM_API_KEY c)
      then [(''Authorization'', ''Bearer '' @ orEmpty (LITELLM_API_KEY c))] else [])"

text \<open>\<^verbatim>\<open>data.data.map(...)\<close> after \<^verbatim>\<open>await response.json()\<close>, inside the \<^verbatim>\<open>try\<close>.\<close>

definition readModels :: "http_response \<Rightarrow> thrown + string list" where
  "readModels response =
     (case hr_json response of
        Inl e \<Rightarrow> Inl e
      | Inr None \<Rightarrow> Inl (ErrorObj ''data.data is undefined'' None)
      | Inr (Some ids) \<Rightarrow> Inr (map litellmId ids))"

subsection \<open>The models route\<close>

definition GET :: "route_env \<Rightarrow> json_response" where
  "GET E =
     (if re_isProviderBlacklisted E ''litellm'' then NextResponse_json []
      else
        let baseUrl = stripTrailingSlash (orEmpty (LITELLM_BASE_URL (re_config E))) in
        if baseUrl = [] then NextResponse_json []
        else
          (case re_fetch E (baseUrl @ ''/v1/models'') (requestHeaders (re_config E)) of
             Inl error \<Rightarrow> NextResponse_json []
           | Inr response \<Rightarrow>
               if \<not> hr_ok response then NextResponse_json []
               else
                 (case readModels response of
                    Inl error \<Rightarrow> NextResponse_json []
                  | Inr allModels \<Rightarrow>
                      NextResponse_json (re_filterBlacklistedModels E allModels))))"

subsection \<open>Model discovery at start-up\<close>

text \<open>
  The state \<^verbatim>\<open>initialize\<close> writes: the provider's own \<^verbatim>\<open>models\<close> and the entry of
  the providers store for \<^verbatim>\<open>litellm\<close> (\<open>None\<close> while nothing was stored).
\<close>

record provider_state =
  ps_models :: "string list"
  ps_storeModels :: "string list option"

record init_env =
  ie_isClient :: bool
  ie_config :: config
  ie_fetch :: "string \<Rightarrow> headers \<Rightarrow> thrown + http_response"

text \<open>
  The result is a sum so that a throw would show; every path of the source returns
  normally, the last one through the \<^verbatim>\<open>catch\<close>.
\<close>

definition initialize :: "init_env \<Rightarrow> provider_state \<Rightarrow> thrown + provider_state" where
  "initialize E s =
     (if ie_isClient E then Inr s
      else
        let baseUrl = stripTrailingSlash (orEmpty (LITELLM_BASE_URL (ie_config E))) in
        if baseUrl = [] then Inr s
        else
          (case ie_fetch E (baseUrl @ ''/v1/models'') (requestHeaders (ie_config E)) of
             Inl error \<Rightarrow> Inr s
           | Inr response \<Rightarrow>
               if \<not> hr_ok response then Inr (s\<lparr>ps_storeModels := Some []\<rparr>)
               else
                 (case readModels response of
                    Inl error \<Rightarrow> Inr s
                  | Inr models \<Rightarrow>
                      Inr (s\<lparr>ps_models := models, ps_storeModels := Some models\<rparr>))))"

subsection \<open>The data of a request\<close>

datatype json =
  JNull | JBool bool | JNum int | JStr string | JArr "json list" | JObj "(string \<times> json) list"

text \<open>The truth value JavaScript gives a JSON value (in \<^verbatim>\<open>a || b\<close>).\<close>

fun truthy :: "json \<Rightarrow> bool" where
  "truthy JNull = False"
| "truthy (JBool b) = b"
| "truthy (JNum n) = (n \<noteq> 0)"
| "truthy (JStr s) = (s \<noteq> [])"
| "truthy (JArr xs) = True"
| "truthy (JObj kvs) = True"

record tool_def =
  td_id :: string
  td_description :: string
  td_parameters :: json
  td_usageControl :: "string option"

text \<open>A tool in the payload: \<^verbatim>\<open>{type: 'function', function: {name, description, parameters}}\<close>.\<close>

record fn_tool =
  ft_name :: string
  ft_description :: string
  ft_parameters :: json

record response_format =
  rf_name :: "string option"
  rf_schema :: "json option"
  rf_strict :: "bool option"

text \<open>\<^verbatim>\<open>schema: responseFormat.schema || responseFormat\<close>: the schema, or the whole object.\<close>

datatype schema_arg = SchemaOf json | WholeFormat response_format

record json_schema =
  js_name :: string
  js_schema :: schema_arg
  js_strict :: bool

text \<open>A tool call of a model response: \<^verbatim>\<open>{id, function: {name, arguments}}\<close>.\<close>

record tool_call =
  tc_id :: string
  tc_name :: string
  tc_arguments :: string

record message =
  m_role :: string
  m_content :: "string option"
  m_tool_calls :: "tool_call list option"
  m_tool_call_id :: "string option"

text \<open>
  \<^verbatim>\<open>tool_choice\<close>: a string (\<^verbatim>\<open>'auto'\<close>, \<^verbatim>\<open>'none'\<close>, ...) or the object
  \<^verbatim>\<open>{type: 'function', function: {name}}\<close> that forces one tool.
\<close>

datatype tool_choice = ChoiceStr string | ChoiceFunction string

record request =
  rq_model :: string
  rq_systemPrompt :: "string option"
  rq_context :: "string option"
  rq_messages :: "message list option"
  rq_tools :: "tool_def list option"
  rq_responseFormat :: "response_format option"
  rq_temperature :: "rat option"
  rq_maxTokens :: "nat option"
  rq_stream :: bool
  rq_apiKey :: "string option"
  rq_azureEndpoint :: "string option"

record payload =
  pl_model :: string
  pl_messages :: "message list"
  pl_temperature :: "rat option"
  pl_max_tokens :: "nat option"
  pl_response_format :: "json_schema option"
  pl_tools :: "fn_tool list option"
  pl_tool_choice :: "tool_choice option"

text \<open>\<^verbatim>\<open>{...payload, stream: true, stream_options: {include_usage: true}}\<close>.\<close>

record streaming_params = payload +
  sp_stream :: bool
  sp_include_usage :: bool

text \<open>What \<^verbatim>\<open>prepareToolsWithUsageControl\<close> returns.\<close>

record prepared_tools =
  pt_tools :: "fn_tool list option"
  pt_toolChoice :: "tool_choice option"
  pt_forcedTools :: "string list option"

subsection \<open>The data of a response\<close>

record usage =
  prompt_tokens :: "nat option"
  completion_tokens :: "nat option"
  total_tokens :: "nat option"

record chat_message =
  cm_content :: "string option"
  cm_tool_calls :: "tool_call list option"

text \<open>
  A chat completion: \<open>rs_message\<close> is \<^verbatim>\<open>choices[0]?.message\<close> (\<open>None\<close> when the choice
  or its message is missing), \<open>rs_usage\<close> is \<^verbatim>\<open>usage\<close>.
\<close>

record response =
  rs_message :: "chat_message option"
  rs_usage :: "usage option"

record tokens =
  tk_input :: nat
  tk_output :: nat
  tk_total :: nat

record cost =
  c_input :: rat
  c_output :: rat
  c_total :: rat

text \<open>What the tool invoker returns: \<^verbatim>\<open>{success, output, error}\<close>.\<close>

record tool_result =
  tr_success :: bool
  tr_output :: "json option"
  tr_error :: "string option"

text \<open>What the function mapped over the tool calls of one response resolves to.\<close>

record tool_execution =
  te_toolCall :: tool_call
  te_toolName :: string
  te_toolParams :: json
  te_result :: tool_result
  te_startTime :: int
  te_endTime :: int
  te_duration :: int

text \<open>An element of the array \<^verbatim>\<open>Promise.allSettled\<close> resolves to.\<close>

datatype 'a settled = Fulfilled 'a | Rejected thrown

datatype segment_type = ModelSeg | ToolSeg

record time_segment =
  ts_type :: segment_type
  ts_name :: string
  ts_startTime :: int
  ts_endTime :: int
  ts_duration :: int

text \<open>\<^verbatim>\<open>new Date(t).toISOString()\<close>.\<close>

datatype iso_time = ISO int

record tool_call_record =
  tcr_name :: string
  tcr_arguments :: json
  tcr_startTime :: iso_time
  tcr_endTime :: iso_time
  tcr_duration :: int
  tcr_result :: "json option"
  tcr_success :: bool

record timing =
  tm_startTime :: iso_time
  tm_endTime :: iso_time
  tm_duration :: int
  tm_modelTime :: int
  tm_toolsTime :: int
  tm_firstResponseTime :: int
  tm_iterations :: nat
  tm_timeSegments :: "time_segment list"

text \<open>
  The object the buffered path returns. The object literal has the properties
  \<^verbatim>\<open>content\<close>, \<^verbatim>\<open>model\<close>, \<^verbatim>\<open>tokens\<close>, \<^verbatim>\<open>toolCalls\<close>, \<^verbatim>\<open>toolResults\<close> and \<^verbatim>\<open>timing\<close>;
  \<open>pr_cost\<close> is the optional \<^verbatim>\<open>cost\<close> of the response type, which the literal does not
  set.
\<close>

record provider_response =
  pr_content :: string
  pr_model :: string
  pr_tokens :: tokens
  pr_toolCalls :: "tool_call_record list option"
  pr_toolResults :: "json option list option"
  pr_timing :: timing
  pr_cost :: "cost option"

text \<open>The \<^verbatim>\<open>execution.output\<close> of a streaming result, and the result itself.\<close>

record provider_timing =
  pv_startTime :: iso_time
  pv_endTime :: iso_time
  pv_duration :: int
  pv_modelTime :: "int option"
  pv_toolsTime :: "int option"
  pv_firstResponseTime :: "int option"
  pv_iterations :: "nat option"
  pv_timeSegments :: "time_segment list"

record stream_output =
  so_content :: string
  so_model :: string
  so_tokens :: tokens
  so_toolCalls :: "(tool_call_record list \<times> nat) option"
  so_providerTiming :: provider_timing
  so_cost :: cost

record streaming_execution =
  se_params :: streaming_params
  se_success :: bool
  se_output :: stream_output
  se_metaStartTime :: iso_time
  se_metaEndTime :: iso_time
  se_metaDuration :: int

datatype exec_result = Buffered provider_response | Streaming streaming_execution

text \<open>
  The \<^verbatim>\<open>Error\<close> that \<^verbatim>\<open>executeRequest\<close> throws: its message and the properties the
  \<^verbatim>\<open>catch\<close> block attaches.
\<close>

record request_error =
  er_message :: string
  er_timing :: "(iso_time \<times> iso_time \<times> int) option"
  er_litellmErrorType :: "string option"
  er_litellmErrorCode :: "int option"

subsection \<open>The environment of a request\<close>

text \<open>
  The places where the source reads the clock (\<^verbatim>\<open>Date.now()\<close>, \<^verbatim>\<open>new Date()\<close>). A pass
  of the tool loop is named by the value of \<^verbatim>\<open>iterationCount\<close>, a tool call by its
  position in the response's \<^verbatim>\<open>tool_calls\<close>. \<open>ToolCallEnd\<close> is the read right after the
  tool call has settled (in the \<^verbatim>\<open>try\<close> or in the \<^verbatim>\<open>catch\<close>).
\<close>

datatype tick =
  ProviderStart
| StreamInit nat
| StreamEnd
| InitialCall
| FirstResponse
| ToolsStart nat
| ToolCallStart nat nat
| ToolCallEnd nat nat
| ToolsEnd nat
| ModelStart nat
| ModelEnd nat
| ProviderEnd

record client =
  cl_apiKey :: string
  cl_baseURL :: string

text \<open>
  \<open>e_chatCreate c n p\<close> is the \<open>n\<close>-th non-streaming \<^verbatim>\<open>chat.completions.create\<close> of the
  request; \<open>e_chatCreateStream\<close> opens a stream (\<open>Some\<close> is what it throws);
  \<open>e_executeTool k i\<close> is \<^verbatim>\<open>executeTool\<close> for the \<open>i\<close>-th tool call of pass \<open>k\<close>.
  \<open>e_MAX_TOOL_ITERATIONS\<close> is the constant imported from \<^verbatim>\<open>@/providers\<close>;
  \<open>e_prepareToolsWithUsageControl\<close>, \<open>e_prepareToolExecution\<close> and \<open>e_calculateCost\<close>
  are the helpers of \<^verbatim>\<open>@/providers/utils\<close>.
\<close>

record env =
  e_config :: config
  e_MAX_TOOL_ITERATIONS :: nat
  e_now :: "tick \<Rightarrow> int"
  e_chatCreate :: "client \<Rightarrow> nat \<Rightarrow> payload \<Rightarrow> thrown + response"
  e_chatCreateStream :: "client \<Rightarrow> streaming_params \<Rightarrow> thrown option"
  e_prepareToolsWithUsageControl :: "fn_tool list \<Rightarrow> tool_def list \<Rightarrow> prepared_tools"
  e_JSON_parse :: "string \<Rightarrow> thrown + json"
  e_JSON_stringify :: "json \<Rightarrow> string"
  e_prepareToolExecution :: "tool_def \<Rightarrow> json \<Rightarrow> request \<Rightarrow> thrown + json \<times> json"
  e_executeTool :: "nat \<Rightarrow> nat \<Rightarrow> string \<Rightarrow> json \<Rightarrow> thrown + tool_result"
  e_calculateCost :: "string \<Rightarrow> nat \<Rightarrow> nat \<Rightarrow> cost"

subsection \<open>Building the payload\<close>

text \<open>\<^verbatim>\<open>a || b || c\<close> on optional strings.\<close>

definition orElse :: "string option \<Rightarrow> string \<Rightarrow> string" where
  "orElse x d = (if truthyStr x then orEmpty x else d)"

definition textMessage :: "string \<Rightarrow> string option \<Rightarrow> message" where
  "textMessage role c =
     \<lparr>m_role = role, m_content = c, m_tool_calls = None, m_tool_call_id = None\<rparr>"

definition buildMessages :: "request \<Rightarrow> message list" where
  "buildMessages rq =
     (if truthyStr (rq_systemPrompt rq) then [textMessage ''system'' (rq_systemPrompt rq)] else []) @
     (if truthyStr (rq_context rq) then [textMessage ''user'' (rq_context rq)] else []) @
     (case rq_messages rq of None \<Rightarrow> [] | Some ms \<Rightarrow> ms)"

text \<open>\<^verbatim>\<open>request.tools?.length ? request.tools.map(...) : undefined\<close>.\<close>

definition buildTools :: "request \<Rightarrow> fn_tool list option" where
  "buildTools rq =
     (case rq_tools rq of
        None \<Rightarrow> None
      | Some ts \<Rightarrow>
          if ts = [] then None
          else Some (map (\<lambda>tool. \<lparr>ft_name = td_id tool, ft_description = td_description tool,
                                    ft_parameters = td_parameters tool\<rparr>) ts))"

definition buildResponseFormat :: "response_format \<Rightarrow> json_schema" where
  "buildResponseFormat rf =
     \<lparr>js_name = orElse (rf_name rf) ''response_schema'',
      js_schema = (case rf_schema rf of
                     None \<Rightarrow> WholeFormat rf
                   | Some s \<Rightarrow> if truthy s then SchemaOf s else WholeFormat rf),
      js_strict = (rf_strict rf \<noteq> Some False)\<rparr>"

definition basePayload :: "request \<Rightarrow> payload" where
  "basePayload rq =
     \<lparr>pl_model = stripLitellmPrefix (rq_model rq),
      pl_messages = buildMessages rq,
      pl_temperature = rq_temperature rq,
      pl_max_tokens = rq_maxTokens rq,
      pl_response_format = map_option buildResponseFormat (rq_responseFormat rq),
      pl_tools = None,
      pl_tool_choice = None\<rparr>"

text \<open>\<^verbatim>\<open>preparedTools\<close>: set only when \<^verbatim>\<open>tools?.length\<close> holds.\<close>

definition prepareTools :: "env \<Rightarrow> request \<Rightarrow> prepared_tools option" where
  "prepareTools E rq =
     (case buildTools rq of
        None \<Rightarrow> None
      | Some tools \<Rightarrow>
          (case rq_tools rq of
             None \<Rightarrow> None
           | Some ts \<Rightarrow> Some (e_prepareToolsWithUsageControl E tools ts)))"

definition truthyChoice :: "tool_choice \<Rightarrow> bool" where
  "truthyChoice c = (case c of ChoiceStr s \<Rightarrow> s \<noteq> [] | ChoiceFunction n \<Rightarrow> True)"

text \<open>\<^verbatim>\<open>filteredTools?.length && toolChoice\<close>: the tools and the choice the payload gets.\<close>

definition activeTools :: "prepared_tools option \<Rightarrow> (fn_tool list \<times> tool_choice) option" where
  "activeTools p =
     (case p of
        None \<Rightarrow> None
      | Some pt \<Rightarrow>
          (case pt_tools pt of
             None \<Rightarrow> None
           | Some filteredTools \<Rightarrow>
               (case pt_toolChoice pt of
                  None \<Rightarrow> None
                | Some toolChoice \<Rightarrow>
                    if filteredTools \<noteq> [] \<and> truthyChoice toolChoice
                    then Some (filteredTools, toolChoice) else None)))"

definition hasActiveTools :: "env \<Rightarrow> request \<Rightarrow> bool" where
  "hasActiveTools E rq = (activeTools (prepareTools E rq) \<noteq> None)"

definition initialPayload :: "env \<Rightarrow> request \<Rightarrow> payload" where
  "initialPayload E rq =
     (case activeTools (prepareTools E rq) of
        None \<Rightarrow> basePayload rq
      | Some (filteredTools, toolChoice) \<Rightarrow>
          (basePayload rq)\<lparr>pl_tools := Some filteredTools, pl_tool_choice := Some toolChoice\<rparr>)"

text \<open>\<^verbatim>\<open>preparedTools?.forcedTools || []\<close>.\<close>

definition forcedToolsOf :: "env \<Rightarrow> request \<Rightarrow> string list" where
  "forcedToolsOf E rq =
     (case prepareTools E rq of
        None \<Rightarrow> []
      | Some pt \<Rightarrow> (case pt_forcedTools pt of None \<Rightarrow> [] | Some fs \<Rightarrow> fs))"

definition streamingParams :: "payload \<Rightarrow> streaming_params" where
  "streamingParams p =
     \<lparr>pl_model = pl_model p, pl_messages = pl_messages p, pl_temperature = pl_temperature p,
      pl_max_tokens = pl_max_tokens p, pl_response_format = pl_response_format p,
      pl_tools = pl_tools p, pl_tool_choice = pl_tool_choice p,
      sp_stream = True, sp_include_usage = True\<rparr>"

subsection \<open>Reading a response\<close>

definition responseContent :: "response \<Rightarrow> string option" where
  "responseContent r = (case rs_message r of None \<Rightarrow> None | Some m \<Rightarrow> cm_content m)"

definition responseToolCalls :: "response \<Rightarrow> tool_call list option" where
  "responseToolCalls r = (case rs_message r of None \<Rightarrow> None | Some m \<Rightarrow> cm_tool_calls m)"

text \<open>The test of the loop's exit: \<^verbatim>\<open>!toolCallsInResponse || toolCallsInResponse.length === 0\<close>.\<close>

definition noToolCalls :: "response \<Rightarrow> bool" where
  "noToolCalls r = (case responseToolCalls r of None \<Rightarrow> True | Some calls \<Rightarrow> calls = [])"

text \<open>\<^verbatim>\<open>content.replace(...).trim()\<close> when a response format was asked for.\<close>

definition cleaned :: "request \<Rightarrow> string \<Rightarrow> string" where
  "cleaned rq c = (if rq_responseFormat rq \<noteq> None then cleanFences c else c)"

text \<open>The first reading of the content (\<^verbatim>\<open>let content = ... || ''\<close>).\<close>

definition initialContent :: "request \<Rightarrow> response \<Rightarrow> string" where
  "initialContent rq r =
     (let content = orEmpty (responseContent r) in
      if content \<noteq> [] \<and> rq_responseFormat rq \<noteq> None then cleanFences content else content)"

text \<open>The later readings: the content changes only when the response has some.\<close>

definition updateContent :: "request \<Rightarrow> response \<Rightarrow> string \<Rightarrow> string" where
  "updateContent rq r content =
     (if truthyStr (responseContent r) then cleaned rq (orEmpty (responseContent r)) else content)"

definition orZero :: "nat option \<Rightarrow> nat" where
  "orZero x = (case x of None \<Rightarrow> 0 | Some n \<Rightarrow> n)"

text \<open>\<^verbatim>\<open>const tokens = {input: usage?.prompt_tokens || 0, ...}\<close>.\<close>

definition initialTokens :: "response \<Rightarrow> tokens" where
  "initialTokens r =
     (case rs_usage r of
        None \<Rightarrow> \<lparr>tk_input = 0, tk_output = 0, tk_total = 0\<rparr>
      | Some u \<Rightarrow> \<lparr>tk_input = orZero (prompt_tokens u), tk_output = orZero (completion_tokens u),
                   tk_total = orZero (total_tokens u)\<rparr>)"

text \<open>\<^verbatim>\<open>if (currentResponse.usage) { tokens.input += ...; ... }\<close>.\<close>

definition addUsage :: "tokens \<Rightarrow> response \<Rightarrow> tokens" where
  "addUsage t r =
     (case rs_usage r of
        None \<Rightarrow> t
      | Some u \<Rightarrow> \<lparr>tk_input = tk_input t + orZero (prompt_tokens u),
                   tk_output = tk_output t + orZero (completion_tokens u),
                   tk_total = tk_total t + orZero (total_tokens u)\<rparr>)"

subsection \<open>Forced tools\<close>

record tracked =
  tu_hasUsedForcedTool :: bool
  tu_usedForcedTools :: "string list"

text \<open>
  Modelled from the spec: \<^verbatim>\<open>trackForcedToolUsage\<close> of \<^verbatim>\<open>@/providers/utils\<close> is not among
  the sources. The specification describes it as a pure function of the tool calls the
  model produced, the current tool-choice directive, the full forced-tool list and the
  previously used forced tools, which gives the updated previously-used set and the flag
  "a forced tool was used this round": it determines whether the required tool was
  invoked. The required tool is the one the directive names.
\<close>

definition trackForcedToolUsage ::
  "tool_call list \<Rightarrow> tool_choice \<Rightarrow> string list \<Rightarrow> string list \<Rightarrow> tracked" where
  "trackForcedToolUsage toolCallsResponse toolChoice forcedTools usedForcedTools =
     (case toolChoice of
        ChoiceStr s \<Rightarrow>
          \<lparr>tu_hasUsedForcedTool = False, tu_usedForcedTools = usedForcedTools\<rparr>
      | ChoiceFunction name \<Rightarrow>
          if name \<in> set (map tc_name toolCallsResponse)
          then \<lparr>tu_hasUsedForcedTool = True, tu_usedForcedTools = usedForcedTools @ [name]\<rparr>
          else \<lparr>tu_hasUsedForcedTool = False, tu_usedForcedTools = usedForcedTools\<rparr>)"

subsection \<open>The state of the tool loop\<close>

text \<open>The variables the loop reads and writes, under their names.\<close>

record loop_state =
  ls_currentResponse :: response
  ls_content :: string
  ls_tokens :: tokens
  ls_toolCalls :: "tool_call_record list"
  ls_toolResults :: "json option list"
  ls_currentMessages :: "message list"
  ls_iterationCount :: nat
  ls_modelTime :: int
  ls_toolsTime :: int
  ls_timeSegments :: "time_segment list"
  ls_usedForcedTools :: "string list"
  ls_hasUsedForcedTool :: bool

text \<open>
  \<^verbatim>\<open>typeof toolChoice === 'object'\<close>: the choice is there and is not a string.
\<close>

definition isObjectChoice :: "tool_choice option \<Rightarrow> bool" where
  "isObjectChoice c = (case c of Some (ChoiceFunction n) \<Rightarrow> True | _ \<Rightarrow> False)"

definition checkForForcedToolUsage ::
  "string list \<Rightarrow> response \<Rightarrow> tool_choice option \<Rightarrow> loop_state \<Rightarrow> loop_state" where
  "checkForForcedToolUsage forcedTools r toolChoice st =
     (case toolChoice of
        Some (ChoiceFunction n) \<Rightarrow>
          (case responseToolCalls r of
             None \<Rightarrow> st
           | Some toolCallsResponse \<Rightarrow>
               let result = trackForcedToolUsage toolCallsResponse (ChoiceFunction n)
                              forcedTools (ls_usedForcedTools st)
               in st\<lparr>ls_hasUsedForcedTool := tu_hasUsedForcedTool result,
                      ls_usedForcedTools := tu_usedForcedTools result\<rparr>)
      | _ \<Rightarrow> st)"

subsection \<open>One tool call\<close>

text \<open>The tools \<^verbatim>\<open>request.tools?.find\<close> looks through: none when \<^verbatim>\<open>tools\<close> is undefined.\<close>

definition requestTools :: "request \<Rightarrow> tool_def list" where
  "requestTools rq = (case rq_tools rq of None \<Rightarrow> [] | Some ts \<Rightarrow> ts)"

text \<open>
  The body of the \<^verbatim>\<open>try\<close> of the function mapped over the tool calls: it throws, or
  it returns \<^verbatim>\<open>null\<close> (no tool of the request has the name), or the execution.
\<close>

definition tryToolCall ::
  "env \<Rightarrow> request \<Rightarrow> nat \<Rightarrow> nat \<Rightarrow> tool_call \<Rightarrow> thrown + tool_execution option" where
  "tryToolCall E rq k i toolCall =
     (let toolCallStartTime = e_now E (ToolCallStart k i);
          toolName = tc_name toolCall
      in case e_JSON_parse E (tc_arguments toolCall) of
           Inl error \<Rightarrow> Inl error
         | Inr toolArgs \<Rightarrow>
             (case find (\<lambda>t. td_id t = toolName) (requestTools rq) of
                None \<Rightarrow> Inr None
              | Some tool \<Rightarrow>
                  (case e_prepareToolExecution E tool toolArgs rq of
                     Inl error \<Rightarrow> Inl error
                   | Inr (toolParams, executionParams) \<Rightarrow>
                       (case e_executeTool E k i toolName executionParams of
                          Inl error \<Rightarrow> Inl error
                        | Inr result \<Rightarrow>
                            let toolCallEndTime = e_now E (ToolCallEnd k i)
                            in Inr (Some
                                 \<lparr>te_toolCall = toolCall, te_toolName = toolName,
                                  te_toolParams = toolParams, te_result = result,
                                  te_startTime = toolCallStartTime,
                                  te_endTime = toolCallEndTime,
                                  te_duration = toolCallEndTime - toolCallStartTime\<rparr>)))))"

text \<open>\<^verbatim>\<open>error instanceof Error ? error.message : 'Tool execution failed'\<close>.\<close>

definition toolErrorMessage :: "thrown \<Rightarrow> string" where
  "toolErrorMessage error =
     (case error of ErrorObj m l \<Rightarrow> m | OtherThrown s l \<Rightarrow> ''Tool execution failed'')"

text \<open>The whole function, with its \<^verbatim>\<open>catch\<close>: it never rejects.\<close>

definition runToolCall ::
  "env \<Rightarrow> request \<Rightarrow> nat \<Rightarrow> nat \<Rightarrow> tool_call \<Rightarrow> tool_execution option" where
  "runToolCall E rq k i toolCall =
     (case tryToolCall E rq k i toolCall of
        Inr v \<Rightarrow> v
      | Inl error \<Rightarrow>
          let toolCallStartTime = e_now E (ToolCallStart k i);
              toolCallEndTime = e_now E (ToolCallEnd k i)
          in Some
               \<lparr>te_toolCall = toolCall, te_toolName = tc_name toolCall,
                te_toolParams = JObj [],
                te_result = \<lparr>tr_success = False, tr_output = None,
                             tr_error = Some (toolErrorMessage error)\<rparr>,
                te_startTime = toolCallStartTime,
                te_endTime = toolCallEndTime,
                te_duration = toolCallEndTime - toolCallStartTime\<rparr>)"

text \<open>
  \<^verbatim>\<open>await Promise.allSettled(toolCallsInResponse.map(...))\<close>: the array of the outcomes,
  one for each element of the mapped array and at its position.
\<close>

definition executeBatch ::
  "env \<Rightarrow> request \<Rightarrow> nat \<Rightarrow> tool_call list \<Rightarrow> tool_execution option settled list" where
  "executeBatch E rq k calls =
     map (\<lambda>(i, toolCall). Fulfilled (runToolCall E rq k i toolCall)) (enumerate 0 calls)"

subsection \<open>Recording a batch\<close>

definition assistantMessage :: "tool_call list \<Rightarrow> message" where
  "assistantMessage calls =
     \<lparr>m_role = ''assistant'', m_content = None,
      m_tool_calls = Some (map (\<lambda>tc. \<lparr>tc_id = tc_id tc, tc_name = tc_name tc,
                                        tc_arguments = tc_arguments tc\<rparr>) calls),
      m_tool_call_id = None\<rparr>"

definition toolSegment :: "tool_execution \<Rightarrow> time_segment" where
  "toolSegment v =
     \<lparr>ts_type = ToolSeg, ts_name = te_toolName v, ts_startTime = te_startTime v,
      ts_endTime = te_endTime v, ts_duration = te_duration v\<rparr>"

text \<open>\<^verbatim>\<open>resultContent\<close>: the output, or the error object.\<close>

definition resultContent :: "tool_execution \<Rightarrow> json option" where
  "resultContent v =
     (if tr_success (te_result v) then tr_output (te_result v)
      else Some (JObj [(''error'', JBool True),
                       (''message'', JStr (orElse (tr_error (te_result v)) ''Tool execution failed'')),
                       (''tool'', JStr (te_toolName v))]))"

definition toolCallRecord :: "tool_execution \<Rightarrow> tool_call_record" where
  "toolCallRecord v =
     \<lparr>tcr_name = te_toolName v, tcr_arguments = te_toolParams v,
      tcr_startTime = ISO (te_startTime v), tcr_endTime = ISO (te_endTime v),
      tcr_duration = te_duration v, tcr_result = resultContent v,
      tcr_success = tr_success (te_result v)\<rparr>"

definition toolMessage :: "env \<Rightarrow> tool_execution \<Rightarrow> message" where
  "toolMessage E v =
     \<lparr>m_role = ''tool'', m_content = map_option (e_JSON_stringify E) (resultContent v),
      m_tool_calls = None, m_tool_call_id = Some (tc_id (te_toolCall v))\<rparr>"

text \<open>One turn of \<^verbatim>\<open>for (const settledResult of executionResults)\<close>.\<close>

definition recordSettled ::
  "env \<Rightarrow> loop_state \<Rightarrow> tool_execution option settled \<Rightarrow> loop_state" where
  "recordSettled E st settledResult =
     (case settledResult of
        Rejected reason \<Rightarrow> st
      | Fulfilled None \<Rightarrow> st
      | Fulfilled (Some v) \<Rightarrow>
          st\<lparr>ls_timeSegments := ls_timeSegments st @ [toolSegment v],
             ls_toolResults := (if tr_success (te_result v)
                                then ls_toolResults st @ [tr_output (te_result v)]
                                else ls_toolResults st),
             ls_toolCalls := ls_toolCalls st @ [toolCallRecord v],
             ls_currentMessages := ls_currentMessages st @ [toolMessage E v]\<rparr>)"

subsection \<open>One pass of the tool loop\<close>

text \<open>From \<^verbatim>\<open>toolsStartTime\<close> to \<^verbatim>\<open>toolsTime += thisToolsTime\<close>.\<close>

definition runTools :: "env \<Rightarrow> request \<Rightarrow> tool_call list \<Rightarrow> loop_state \<Rightarrow> loop_state" where
  "runTools E rq calls st =
     (let k = ls_iterationCount st;
          toolsStartTime = e_now E (ToolsStart k);
          executionResults = executeBatch E rq k calls;
          st1 = st\<lparr>ls_currentMessages := ls_currentMessages st @ [assistantMessage calls]\<rparr>;
          st2 = foldl (recordSettled E) st1 executionResults;
          thisToolsTime = e_now E (ToolsEnd k) - toolsStartTime
      in st2\<lparr>ls_toolsTime := ls_toolsTime st2 + thisToolsTime\<rparr>)"

text \<open>
  \<^verbatim>\<open>nextPayload\<close>: the payload with the messages so far, and the tool choice moved on
  when the original choice forces a tool and a forced tool was used.
\<close>

definition nextPayload :: "payload \<Rightarrow> string list \<Rightarrow> loop_state \<Rightarrow> payload" where
  "nextPayload p forcedTools st =
     (let np = p\<lparr>pl_messages := ls_currentMessages st\<rparr> in
      if isObjectChoice (pl_tool_choice p) \<and> ls_hasUsedForcedTool st \<and> forcedTools \<noteq> [] then
        (case filter (\<lambda>tool. tool \<notin> set (ls_usedForcedTools st)) forcedTools of
           [] \<Rightarrow> np\<lparr>pl_tool_choice := Some (ChoiceStr ''auto'')\<rparr>
         | tool # rest \<Rightarrow> np\<lparr>pl_tool_choice := Some (ChoiceFunction tool)\<rparr>)
      else np)"

definition modelSegment :: "env \<Rightarrow> nat \<Rightarrow> time_segment" where
  "modelSegment E k =
     \<lparr>ts_type = ModelSeg,
      ts_name = ''Model response (iteration '' @ string_of_nat (k + 1) @ '')'',
      ts_startTime = e_now E (ModelStart k),
      ts_endTime = e_now E (ModelEnd k),
      ts_duration = e_now E (ModelEnd k) - e_now E (ModelStart k)\<rparr>"

text \<open>From \<^verbatim>\<open>checkForForcedToolUsage(currentResponse, nextPayload.tool_choice)\<close> to \<^verbatim>\<open>iterationCount++\<close>.\<close>

definition afterModelCall ::
  "env \<Rightarrow> request \<Rightarrow> string list \<Rightarrow> payload \<Rightarrow> response \<Rightarrow> loop_state \<Rightarrow> loop_state" where
  "afterModelCall E rq forcedTools np r st =
     (let k = ls_iterationCount st;
          st1 = checkForForcedToolUsage forcedTools r (pl_tool_choice np)
                  (st\<lparr>ls_currentResponse := r\<rparr>);
          st2 = st1\<lparr>ls_timeSegments := ls_timeSegments st1 @ [modelSegment E k],
                    ls_modelTime := ls_modelTime st1 +
                                    (e_now E (ModelEnd k) - e_now E (ModelStart k))\<rparr>;
          st3 = st2\<lparr>ls_content := updateContent rq r (ls_content st2)\<rparr>;
          st4 = st3\<lparr>ls_tokens := addUsage (ls_tokens st3) r\<rparr>
      in st4\<lparr>ls_iterationCount := Suc k\<rparr>)"

datatype loop_step = LoopBreak loop_state | LoopContinue loop_state | LoopThrow thrown

text \<open>The body of \<^verbatim>\<open>while (iterationCount < MAX_TOOL_ITERATIONS)\<close>.\<close>

definition loopBody ::
  "env \<Rightarrow> client \<Rightarrow> request \<Rightarrow> payload \<Rightarrow> string list \<Rightarrow> loop_state \<Rightarrow> loop_step" where
  "loopBody E cl rq p forcedTools st =
     (let st1 = st\<lparr>ls_content := updateContent rq (ls_currentResponse st) (ls_content st)\<rparr> in
      case responseToolCalls (ls_currentResponse st) of
        None \<Rightarrow> LoopBreak st1
      | Some toolCallsInResponse \<Rightarrow>
          if toolCallsInResponse = [] then LoopBreak st1
          else
            let st2 = runTools E rq toolCallsInResponse st1;
                np = nextPayload p forcedTools st2
            in case e_chatCreate E cl (Suc (ls_iterationCount st)) np of
                 Inl error \<Rightarrow> LoopThrow error
               | Inr r \<Rightarrow> LoopContinue (afterModelCall E rq forcedTools np r st2))"

subsection \<open>The tool loop\<close>

text \<open>A pass that goes on to the next one has counted itself: the loop's measure.\<close>

lemma recordSettled_iterationCount:
  "ls_iterationCount (recordSettled E st r) = ls_iterationCount st"
  by (simp add: recordSettled_def split: settled.split option.split)

lemma foldl_recordSettled_iterationCount:
  "ls_iterationCount (foldl (recordSettled E) st rs) = ls_iterationCount st"
  by (induction rs arbitrary: st) (simp_all add: recordSettled_iterationCount)

lemma runTools_iterationCount:
  "ls_iterationCount (runTools E rq calls st) = ls_iterationCount st"
  by (simp add: runTools_def Let_def foldl_recordSettled_iterationCount)

lemma checkForForcedToolUsage_iterationCount:
  "ls_iterationCount (checkForForcedToolUsage fs r c st) = ls_iterationCount st"
  by (simp add: checkForForcedToolUsage_def Let_def split: option.split tool_choice.split)

lemma afterModelCall_iterationCount:
  "ls_iterationCount (afterModelCall E rq fs np r st) = Suc (ls_iterationCount st)"
  by (simp add: afterModelCall_def Let_def)

lemma loopBody_Continue_iterationCount:
  "loopBody E cl rq p fs st = LoopContinue st' \<Longrightarrow>
   ls_iterationCount st' = Suc (ls_iterationCount st)"
  by (auto simp: loopBody_def Let_def afterModelCall_iterationCount runTools_iterationCount
           split: option.splits if_splits sum.splits)

text \<open>
  \<^verbatim>\<open>while (iterationCount < MAX_TOOL_ITERATIONS) { ... }\<close>: the state after the loop, or what a
  model call threw.
\<close>

function toolLoop ::
  "env \<Rightarrow> client \<Rightarrow> request \<Rightarrow> payload \<Rightarrow> string list \<Rightarrow> loop_state \<Rightarrow> thrown + loop_state" where
  "toolLoop E cl rq p forcedTools st =
     (if ls_iterationCount st < e_MAX_TOOL_ITERATIONS E then
        (case loopBody E cl rq p forcedTools st of
           LoopBreak st' \<Rightarrow> Inr st'
         | LoopThrow error \<Rightarrow> Inl error
         | LoopContinue st' \<Rightarrow> toolLoop E cl rq p forcedTools st')
      else Inr st)"
  by pat_completeness auto
termination
  by (relation "measure (\<lambda>(E, cl, rq, p, fs, st). e_MAX_TOOL_ITERATIONS E - ls_iterationCount st)")
     (auto dest: loopBody_Continue_iterationCount)

declare toolLoop.simps [simp del]

subsection \<open>The request\<close>

definition firstResponseTime :: "env \<Rightarrow> int" where
  "firstResponseTime E = e_now E FirstResponse - e_now E InitialCall"

text \<open>The variables as they are when the loop is entered.\<close>

definition initialState :: "env \<Rightarrow> request \<Rightarrow> payload \<Rightarrow> response \<Rightarrow> loop_state" where
  "initialState E rq p r =
     checkForForcedToolUsage (forcedToolsOf E rq) r (pl_tool_choice p)
       \<lparr>ls_currentResponse = r,
        ls_content = initialContent rq r,
        ls_tokens = initialTokens r,
        ls_toolCalls = [],
        ls_toolResults = [],
        ls_currentMessages = buildMessages rq,
        ls_iterationCount = 0,
        ls_modelTime = firstResponseTime E,
        ls_toolsTime = 0,
        ls_timeSegments =
          [\<lparr>ts_type = ModelSeg, ts_name = ''Initial response'',
            ts_startTime = e_now E InitialCall,
            ts_endTime = e_now E InitialCall + firstResponseTime E,
            ts_duration = firstResponseTime E\<rparr>],
        ls_usedForcedTools = [],
        ls_hasUsedForcedTool = False\<rparr>"

text \<open>The object the buffered path returns.\<close>

definition finalResult :: "env \<Rightarrow> request \<Rightarrow> loop_state \<Rightarrow> provider_response" where
  "finalResult E rq st =
     \<lparr>pr_content = ls_content st,
      pr_model = rq_model rq,
      pr_tokens = ls_tokens st,
      pr_toolCalls = (if ls_toolCalls st \<noteq> [] then Some (ls_toolCalls st) else None),
      pr_toolResults = (if ls_toolResults st \<noteq> [] then Some (ls_toolResults st) else None),
      pr_timing =
        \<lparr>tm_startTime = ISO (e_now E ProviderStart),
         tm_endTime = ISO (e_now E ProviderEnd),
         tm_duration = e_now E ProviderEnd - e_now E ProviderStart,
         tm_modelTime = ls_modelTime st,
         tm_toolsTime = ls_toolsTime st,
         tm_firstResponseTime = firstResponseTime E,
         tm_iterations = ls_iterationCount st + 1,
         tm_timeSegments = ls_timeSegments st\<rparr>,
      pr_cost = None\<rparr>"

text \<open>The streaming result of a request with no active tools, as it is returned.\<close>

definition streamDirect :: "env \<Rightarrow> client \<Rightarrow> request \<Rightarrow> payload \<Rightarrow> thrown + exec_result" where
  "streamDirect E cl rq p =
     (case e_chatCreateStream E cl (streamingParams p) of
        Some error \<Rightarrow> Inl error
      | None \<Rightarrow>
          Inr (Streaming
            \<lparr>se_params = streamingParams p,
             se_success = True,
             se_output =
               \<lparr>so_content = [],
                so_model = rq_model rq,
                so_tokens = \<lparr>tk_input = 0, tk_output = 0, tk_total = 0\<rparr>,
                so_toolCalls = None,
                so_providerTiming =
                  \<lparr>pv_startTime = ISO (e_now E ProviderStart),
                   pv_endTime = ISO (e_now E (StreamInit 0)),
                   pv_duration = e_now E (StreamInit 1) - e_now E ProviderStart,
                   pv_modelTime = None, pv_toolsTime = None,
                   pv_firstResponseTime = None, pv_iterations = None,
                   pv_timeSegments =
                     [\<lparr>ts_type = ModelSeg, ts_name = ''Streaming response'',
                       ts_startTime = e_now E ProviderStart,
                       ts_endTime = e_now E (StreamInit 2),
                       ts_duration = e_now E (StreamInit 3) - e_now E ProviderStart\<rparr>]\<rparr>,
                so_cost = \<lparr>c_input = 0, c_output = 0, c_total = 0\<rparr>\<rparr>,
             se_metaStartTime = ISO (e_now E ProviderStart),
             se_metaEndTime = ISO (e_now E (StreamInit 4)),
             se_metaDuration = e_now E (StreamInit 5) - e_now E ProviderStart\<rparr>))"

text \<open>
  The callback of that stream, run once with the whole content and the final usage
  (\<^verbatim>\<open>prompt_tokens\<close>, \<^verbatim>\<open>completion_tokens\<close>, \<^verbatim>\<open>total_tokens\<close>).
\<close>

definition onStreamDirectComplete ::
  "env \<Rightarrow> request \<Rightarrow> string \<Rightarrow> nat \<Rightarrow> nat \<Rightarrow> nat \<Rightarrow> stream_output \<Rightarrow> stream_output" where
  "onStreamDirectComplete E rq content prompt completion totalTokens out =
     (let cleanContent = (if content \<noteq> [] \<and> rq_responseFormat rq \<noteq> None
                          then cleanFences content else content);
          streamEndTime = e_now E StreamEnd;
          t = so_providerTiming out
      in out\<lparr>so_content := cleanContent,
              so_tokens := \<lparr>tk_input = prompt, tk_output = completion, tk_total = totalTokens\<rparr>,
              so_cost := e_calculateCost E (rq_model rq) prompt completion,
              so_providerTiming :=
                t\<lparr>pv_endTime := ISO streamEndTime,
                  pv_duration := streamEndTime - e_now E ProviderStart,
                  pv_timeSegments :=
                    (case pv_timeSegments t of
                       [] \<Rightarrow> []
                     | seg # rest \<Rightarrow>
                         seg\<lparr>ts_endTime := streamEndTime,
                             ts_duration := streamEndTime - e_now E ProviderStart\<rparr> # rest)\<rparr>\<rparr>)"

text \<open>The streaming result after the tool loop, as it is returned.\<close>

definition streamAfterTools ::
  "env \<Rightarrow> client \<Rightarrow> request \<Rightarrow> payload \<Rightarrow> loop_state \<Rightarrow> thrown + exec_result" where
  "streamAfterTools E cl rq p st =
     (let accumulatedCost = e_calculateCost E (rq_model rq) (tk_input (ls_tokens st))
                              (tk_output (ls_tokens st));
          params = streamingParams (p\<lparr>pl_messages := ls_currentMessages st,
                                       pl_tool_choice := Some (ChoiceStr ''auto'')\<rparr>)
      in case e_chatCreateStream E cl params of
           Some error \<Rightarrow> Inl error
         | None \<Rightarrow>
             Inr (Streaming
               \<lparr>se_params = params,
                se_success = True,
                se_output =
                  \<lparr>so_content = [],
                   so_model = rq_model rq,
                   so_tokens = ls_tokens st,
                   so_toolCalls = (if ls_toolCalls st \<noteq> []
                                   then Some (ls_toolCalls st, length (ls_toolCalls st))
                                   else None),
                   so_providerTiming =
                     \<lparr>pv_startTime = ISO (e_now E ProviderStart),
                      pv_endTime = ISO (e_now E (StreamInit 0)),
                      pv_duration = e_now E (StreamInit 1) - e_now E ProviderStart,
                      pv_modelTime = Some (ls_modelTime st),
                      pv_toolsTime = Some (ls_toolsTime st),
                      pv_firstResponseTime = Some (firstResponseTime E),
                      pv_iterations = Some (ls_iterationCount st + 1),
                      pv_timeSegments = ls_timeSegments st\<rparr>,
                   so_cost = accumulatedCost\<rparr>,
                se_metaStartTime = ISO (e_now E ProviderStart),
                se_metaEndTime = ISO (e_now E (StreamInit 2)),
                se_metaDuration = e_now E (StreamInit 3) - e_now E ProviderStart\<rparr>))"

text \<open>The callback of that stream: the stream's usage and cost are added to the loop's.\<close>

definition onStreamAfterToolsComplete ::
  "env \<Rightarrow> request \<Rightarrow> loop_state \<Rightarrow> string \<Rightarrow> nat \<Rightarrow> nat \<Rightarrow> nat \<Rightarrow> stream_output \<Rightarrow> stream_output" where
  "onStreamAfterToolsComplete E rq st content prompt completion totalTokens out =
     (let cleanContent = (if content \<noteq> [] \<and> rq_responseFormat rq \<noteq> None
                          then cleanFences content else content);
          accumulatedCost = e_calculateCost E (rq_model rq) (tk_input (ls_tokens st))
                              (tk_output (ls_tokens st));
          streamCost = e_calculateCost E (rq_model rq) prompt completion
      in out\<lparr>so_content := cleanContent,
              so_tokens := \<lparr>tk_input = tk_input (ls_tokens st) + prompt,
                             tk_output = tk_output (ls_tokens st) + completion,
                             tk_total = tk_total (ls_tokens st) + totalTokens\<rparr>,
              so_cost := \<lparr>c_input = c_input accumulatedCost + c_input streamCost,
                           c_output = c_output accumulatedCost + c_output streamCost,
                           c_total = c_total accumulatedCost + c_total streamCost\<rparr>\<rparr>)"

text \<open>The body of the \<^verbatim>\<open>try\<close>.\<close>

definition tryRequest :: "env \<Rightarrow> client \<Rightarrow> request \<Rightarrow> thrown + exec_result" where
  "tryRequest E cl rq =
     (let p = initialPayload E rq in
      if rq_stream rq \<and> (buildTools rq = None \<or> \<not> hasActiveTools E rq) then streamDirect E cl rq p
      else
        (case e_chatCreate E cl 0 p of
           Inl error \<Rightarrow> Inl error
         | Inr currentResponse \<Rightarrow>
             (case toolLoop E cl rq p (forcedToolsOf E rq) (initialState E rq p currentResponse) of
                Inl error \<Rightarrow> Inl error
              | Inr st \<Rightarrow>
                  if rq_stream rq then streamAfterTools E cl rq p st
                  else Inr (Buffered (finalResult E rq st)))))"

text \<open>The \<^verbatim>\<open>catch\<close>: the error thrown in place of what was caught.\<close>

definition thrownMessage :: "thrown \<Rightarrow> string" where
  "thrownMessage error = (case error of ErrorObj m l \<Rightarrow> m | OtherThrown s l \<Rightarrow> s)"

definition thrownPayload :: "thrown \<Rightarrow> provider_error option" where
  "thrownPayload error = (case error of ErrorObj m l \<Rightarrow> l | OtherThrown s l \<Rightarrow> l)"

definition enhanceError :: "env \<Rightarrow> thrown \<Rightarrow> request_error" where
  "enhanceError E error =
     (let errorMessage = (case thrownPayload error of
                            None \<Rightarrow> thrownMessage error
                          | Some l \<Rightarrow> orElse (pe_message l) (thrownMessage error));
          errorType = (case thrownPayload error of None \<Rightarrow> None | Some l \<Rightarrow> pe_type l);
          errorCode = (case thrownPayload error of None \<Rightarrow> None | Some l \<Rightarrow> pe_code l)
      in \<lparr>er_message = errorMessage,
          er_timing = Some (ISO (e_now E ProviderStart), ISO (e_now E ProviderEnd),
                            e_now E ProviderEnd - e_now E ProviderStart),
          er_litellmErrorType = (if truthyStr errorType then errorType else None),
          er_litellmErrorCode = (case errorCode of
                                   None \<Rightarrow> None
                                 | Some c \<Rightarrow> if c \<noteq> 0 then Some c else None)\<rparr>)"

definition requestBaseUrl :: "env \<Rightarrow> request \<Rightarrow> string" where
  "requestBaseUrl E rq =
     stripTrailingSlash
       (orElse (rq_azureEndpoint rq) (orElse (LITELLM_BASE_URL (e_config E)) []))"

definition requestClient :: "env \<Rightarrow> request \<Rightarrow> client" where
  "requestClient E rq =
     \<lparr>cl_apiKey = orElse (rq_apiKey rq) (orElse (LITELLM_API_KEY (e_config E)) ''empty''),
      cl_baseURL = requestBaseUrl E rq @ ''/v1''\<rparr>"

definition executeRequest :: "env \<Rightarrow> request \<Rightarrow> request_error + exec_result" where
  "executeRequest E rq =
     (if requestBaseUrl E rq = [] then
        Inl \<lparr>er_message = ''LITELLM_BASE_URL is required for LiteLLM provider'',
             er_timing = None, er_litellmErrorType = None, er_litellmErrorCode = None\<rparr>
      else
        (case tryRequest E (requestClient E rq) rq of
           Inr result \<Rightarrow> Inr result
         | Inl error \<Rightarrow> Inl (enhanceError E error)))"

subsection \<open>Notions used in the statements\<close>

text \<open>The answer of the upstream \<^verbatim>\<open>fetch\<close> of the models route.\<close>

definition routeUpstream :: "route_env \<Rightarrow> thrown + http_response" where
  "routeUpstream E =
     re_fetch E (stripTrailingSlash (orEmpty (LITELLM_BASE_URL (re_config E))) @ ''/v1/models'')
       (requestHeaders (re_config E))"

text \<open>
  The values the \<^verbatim>\<open>for\<close> loop over the settled results does not skip, in the order
  of the array.
\<close>

fun fulfilledValues :: "'a option settled list \<Rightarrow> 'a list" where
  "fulfilledValues [] = []"
| "fulfilledValues (Rejected e # rs) = fulfilledValues rs"
| "fulfilledValues (Fulfilled None # rs) = fulfilledValues rs"
| "fulfilledValues (Fulfilled (Some v) # rs) = v # fulfilledValues rs"

text \<open>The executions of the batch of pass \<open>k\<close> that are recorded, in that order.\<close>

definition executed :: "env \<Rightarrow> request \<Rightarrow> nat \<Rightarrow> tool_call list \<Rightarrow> tool_execution list" where
  "executed E rq k calls = fulfilledValues (executeBatch E rq k calls)"

text \<open>The outputs pushed to \<^verbatim>\<open>toolResults\<close>: those of the successful executions.\<close>

definition outputsOf :: "tool_execution list \<Rightarrow> json option list" where
  "outputsOf vs = map (\<lambda>v. tr_output (te_result v)) (filter (\<lambda>v. tr_success (te_result v)) vs)"

text \<open>
  The state of a pass after its first statements (the content is read again), and the
  payload the pass sends to the model after its batch of tool calls.
\<close>

definition beforeTools :: "request \<Rightarrow> loop_state \<Rightarrow> loop_state" where
  "beforeTools rq st = st\<lparr>ls_content := updateContent rq (ls_currentResponse st) (ls_content st)\<rparr>"

definition passPayload ::
  "env \<Rightarrow> request \<Rightarrow> payload \<Rightarrow> string list \<Rightarrow> tool_call list \<Rightarrow> loop_state \<Rightarrow> payload" where
  "passPayload E rq p fs calls st = nextPayload p fs (runTools E rq calls (beforeTools rq st))"

text \<open>The model time segments of a sequence, and the assistant messages that list tool calls.\<close>

definition modelSegments :: "time_segment list \<Rightarrow> time_segment list" where
  "modelSegments segs = filter (\<lambda>s. ts_type s = ModelSeg) segs"

definition batchMessages :: "message list \<Rightarrow> message list" where
  "batchMessages ms = filter (\<lambda>m. m_role m = ''assistant'' \<and> m_tool_calls m \<noteq> None) ms"

text \<open>The state after a pass whose model call returned \<open>r\<close>.\<close>

definition passState ::
  "env \<Rightarrow> request \<Rightarrow> payload \<Rightarrow> string list \<Rightarrow> tool_call list \<Rightarrow> response \<Rightarrow> loop_state \<Rightarrow> loop_state" where
  "passState E rq p fs calls r st =
     afterModelCall E rq fs (passPayload E rq p fs calls st) r
       (runTools E rq calls (beforeTools rq st))"

text \<open>A response whose reported total is the sum of its prompt and completion tokens.\<close>

definition consistentUsage :: "response \<Rightarrow> bool" where
  "consistentUsage r =
     (tk_total (initialTokens r) = tk_input (initialTokens r) + tk_output (initialTokens r))"


text \<open>
  The execution the \<^verbatim>\<open>catch\<close> block of a tool call returns for the thrown value
  \<open>error\<close>: the call with the result \<^verbatim>\<open>{ success: false, output: undefined, error }\<close>.
\<close>

definition failedExecution :: "env \<Rightarrow> nat \<Rightarrow> nat \<Rightarrow> tool_call \<Rightarrow> thrown \<Rightarrow> tool_execution" where
  "failedExecution E k i toolCall error =
     \<lparr>te_toolCall = toolCall, te_toolName = tc_name toolCall, te_toolParams = JObj [],
      te_result = \<lparr>tr_success = False, tr_output = None,
                     tr_error = Some (toolErrorMessage error)\<rparr>,
      te_startTime = e_now E (ToolCallStart k i),
      te_endTime = e_now E (ToolCallEnd k i),
      te_duration = e_now E (ToolCallEnd k i) - e_now E (ToolCallStart k i)\<rparr>"



subsection \<open>Concrete inputs\<close>

definition unconfigured :: config where
  "unconfigured = \<lparr>LITELLM_BASE_URL = None, LITELLM_API_KEY = None\<rparr>"

definition configured :: config where
  "configured = \<lparr>LITELLM_BASE_URL = Some ''http://llm/'', LITELLM_API_KEY = Some ''key''\<rparr>"

text \<open>A route whose blacklist hides the model \<^verbatim>\<open>litellm/hidden\<close>.\<close>

definition routeEnv :: "config \<Rightarrow> bool \<Rightarrow> (thrown + http_response) \<Rightarrow> route_env" where
  "routeEnv c blacklisted upstream =
     \<lparr>re_config = c,
      re_fetch = (\<lambda>url hs. upstream),
      re_isProviderBlacklisted = (\<lambda>provider. blacklisted),
      re_filterBlacklistedModels = filter (\<lambda>m. m \<noteq> ''litellm/hidden'')\<rparr>"

definition upstreamModels :: http_response where
  "upstreamModels = \<lparr>hr_ok = True, hr_status = 200, hr_json = Inr (Some [''gpt-4'', ''hidden''])\<rparr>"

definition upstreamUnavailable :: http_response where
  "upstreamUnavailable =
     \<lparr>hr_ok = False, hr_status = 503, hr_json = Inl (ErrorObj ''Unexpected token'' None)\<rparr>"

definition networkError :: thrown where
  "networkError = ErrorObj ''fetch failed'' None"

definition initEnv :: "config \<Rightarrow> init_env" where
  "initEnv c = \<lparr>ie_isClient = False, ie_config = c, ie_fetch = (\<lambda>url hs. Inl networkError)\<rparr>"

definition noModels :: provider_state where
  "noModels = \<lparr>ps_models = [], ps_storeModels = None\<rparr>"

text \<open>
  An environment whose model calls follow a script (the answer of the \<open>n\<close>-th call), whose
  tools answer by their name, and whose JSON parser accepts just \<^verbatim>\<open>{}\<close>.
\<close>

definition zeroCost :: cost where
  "zeroCost = \<lparr>c_input = 0, c_output = 0, c_total = 0\<rparr>"

definition scriptedEnv ::
  "config \<Rightarrow> nat \<Rightarrow> (tick \<Rightarrow> int) \<Rightarrow> (nat \<Rightarrow> thrown + response) \<Rightarrow>
   (string \<Rightarrow> thrown + tool_result) \<Rightarrow> prepared_tools \<Rightarrow> env" where
  "scriptedEnv c mx clock script invoke prepared =
     \<lparr>e_config = c,
      e_MAX_TOOL_ITERATIONS = mx,
      e_now = clock,
      e_chatCreate = (\<lambda>cl n p. script n),
      e_chatCreateStream = (\<lambda>cl p. None),
      e_prepareToolsWithUsageControl = (\<lambda>fts tds. prepared),
      e_JSON_parse = (\<lambda>s. if s = ''{}'' then Inr (JObj [])
                            else Inl (ErrorObj ''Unexpected token'' None)),
      e_JSON_stringify = (\<lambda>j. ''json''),
      e_prepareToolExecution = (\<lambda>tool args rq. Inr (args, args)),
      e_executeTool = (\<lambda>k i name params. invoke name),
      e_calculateCost = (\<lambda>m i out. zeroCost)\<rparr>"

definition autoPrepared :: prepared_tools where
  "autoPrepared = \<lparr>pt_tools = None, pt_toolChoice = None, pt_forcedTools = None\<rparr>"

definition textResponse :: "string \<Rightarrow> response" where
  "textResponse c =
     \<lparr>rs_message = Some \<lparr>cm_content = Some c, cm_tool_calls = None\<rparr>,
      rs_usage = Some \<lparr>prompt_tokens = Some 3, completion_tokens = Some 2,
                        total_tokens = Some 5\<rparr>\<rparr>"

definition plainRequest :: request where
  "plainRequest =
     \<lparr>rq_model = ''litellm/gpt-4'', rq_systemPrompt = None, rq_context = None,
      rq_messages = Some [textMessage ''user'' (Some ''hello'')], rq_tools = None,
      rq_responseFormat = None, rq_temperature = None, rq_maxTokens = None,
      rq_stream = False, rq_apiKey = None, rq_azureEndpoint = None\<rparr>"

definition idleClock :: "tick \<Rightarrow> int" where
  "idleClock t = 0"

definition helloScript :: "nat \<Rightarrow> thrown + response" where
  "helloScript n = Inr (textResponse ''hi'')"

definition failingTool :: "string \<Rightarrow> thrown + tool_result" where
  "failingTool name = Inl (ErrorObj ''boom'' None)"

definition unconfiguredEnv :: env where
  "unconfiguredEnv = scriptedEnv unconfigured 10 idleClock helloScript failingTool autoPrepared"

text \<open>
  A request with the tools \<^verbatim>\<open>slow\<close> and \<^verbatim>\<open>fast\<close>. The first response calls both, in
  that order; \<^verbatim>\<open>slow\<close> settles at time 10 and \<^verbatim>\<open>fast\<close> at time 5. The second response
  is plain text.
\<close>

definition toolDef :: "string \<Rightarrow> tool_def" where
  "toolDef n = \<lparr>td_id = n, td_description = ''a tool'', td_parameters = JObj [],
                td_usageControl = None\<rparr>"

definition fnTool :: "string \<Rightarrow> fn_tool" where
  "fnTool n = \<lparr>ft_name = n, ft_description = ''a tool'', ft_parameters = JObj []\<rparr>"

definition toolCallOf :: "string \<Rightarrow> string \<Rightarrow> string \<Rightarrow> tool_call" where
  "toolCallOf i n a = \<lparr>tc_id = i, tc_name = n, tc_arguments = a\<rparr>"

definition callsResponse :: "tool_call list \<Rightarrow> response" where
  "callsResponse calls =
     \<lparr>rs_message = Some \<lparr>cm_content = None, cm_tool_calls = Some calls\<rparr>,
      rs_usage = Some \<lparr>prompt_tokens = Some 3, completion_tokens = Some 2,
                        total_tokens = Some 5\<rparr>\<rparr>"

definition echoTool :: "string \<Rightarrow> thrown + tool_result" where
  "echoTool name = Inr \<lparr>tr_success = True, tr_output = Some (JStr name), tr_error = None\<rparr>"

definition toolsRequest :: "string list \<Rightarrow> request" where
  "toolsRequest names = plainRequest\<lparr>rq_tools := Some (map toolDef names)\<rparr>"

definition preparedAuto :: "string list \<Rightarrow> prepared_tools" where
  "preparedAuto names =
     \<lparr>pt_tools = Some (map fnTool names), pt_toolChoice = Some (ChoiceStr ''auto''),
      pt_forcedTools = Some []\<rparr>"

definition raceClock :: "tick \<Rightarrow> int" where
  "raceClock t = (case t of ToolCallEnd k i \<Rightarrow> if i = 0 then 10 else 5 | _ \<Rightarrow> 0)"

definition raceScript :: "nat \<Rightarrow> thrown + response" where
  "raceScript n =
     (if n = 0 then Inr (callsResponse [toolCallOf ''a'' ''slow'' ''{}'', toolCallOf ''b'' ''fast'' ''{}''])
      else Inr (textResponse ''done''))"

definition raceEnv :: env where
  "raceEnv = scriptedEnv configured 10 raceClock raceScript echoTool (preparedAuto [''slow'', ''fast''])"

definition raceRequest :: request where
  "raceRequest = toolsRequest [''slow'', ''fast'']"

definition raceResult :: provider_response where
  "raceResult =
     \<lparr>pr_content = ''done'',
      pr_model = ''litellm/gpt-4'',
      pr_tokens = \<lparr>tk_input = 6, tk_output = 4, tk_total = 10\<rparr>,
      pr_toolCalls = Some
        [\<lparr>tcr_name = ''slow'', tcr_arguments = JObj [], tcr_startTime = ISO 0,
          tcr_endTime = ISO 10, tcr_duration = 10, tcr_result = Some (JStr ''slow''),
          tcr_success = True\<rparr>,
         \<lparr>tcr_name = ''fast'', tcr_arguments = JObj [], tcr_startTime = ISO 0,
          tcr_endTime = ISO 5, tcr_duration = 5, tcr_result = Some (JStr ''fast''),
          tcr_success = True\<rparr>],
      pr_toolResults = Some [Some (JStr ''slow''), Some (JStr ''fast'')],
      pr_timing =
        \<lparr>tm_startTime = ISO 0, tm_endTime = ISO 0, tm_duration = 0, tm_modelTime = 0,
         tm_toolsTime = 0, tm_firstResponseTime = 0, tm_iterations = 2,
         tm_timeSegments =
           [\<lparr>ts_type = ModelSeg, ts_name = ''Initial response'', ts_startTime = 0,
             ts_endTime = 0, ts_duration = 0\<rparr>,
            \<lparr>ts_type = ToolSeg, ts_name = ''slow'', ts_startTime = 0,
             ts_endTime = 10, ts_duration = 10\<rparr>,
            \<lparr>ts_type = ToolSeg, ts_name = ''fast'', ts_startTime = 0,
             ts_endTime = 5, ts_duration = 5\<rparr>,
            \<lparr>ts_type = ModelSeg, ts_name = ''Model response (iteration 1)'', ts_startTime = 0,
             ts_endTime = 0, ts_duration = 0\<rparr>]\<rparr>,
      pr_cost = None\<rparr>"

definition raceCalls :: "tool_call list" where
  "raceCalls = [toolCallOf ''a'' ''slow'' ''{}'', toolCallOf ''b'' ''fast'' ''{}'']"

text \<open>
  A request with the tool \<^verbatim>\<open>lookup\<close>, answered by a call of the unknown tool
  \<^verbatim>\<open>ghost\<close> whose arguments are not JSON, then by plain text.
\<close>

definition ghostScript :: "nat \<Rightarrow> thrown + response" where
  "ghostScript n =
     (if n = 0 then Inr (callsResponse [toolCallOf ''c1'' ''ghost'' ''not json''])
      else Inr (textResponse ''done''))"

definition ghostEnv :: env where
  "ghostEnv = scriptedEnv configured 10 idleClock ghostScript echoTool (preparedAuto [''lookup''])"

definition ghostRequest :: request where
  "ghostRequest = toolsRequest [''lookup'']"

definition ghostResult :: provider_response where
  "ghostResult =
     \<lparr>pr_content = ''done'',
      pr_model = ''litellm/gpt-4'',
      pr_tokens = \<lparr>tk_input = 6, tk_output = 4, tk_total = 10\<rparr>,
      pr_toolCalls = Some
        [\<lparr>tcr_name = ''ghost'', tcr_arguments = JObj [], tcr_startTime = ISO 0,
          tcr_endTime = ISO 0, tcr_duration = 0,
          tcr_result = Some (JObj [(''error'', JBool True),
                                   (''message'', JStr ''Unexpected token''),
                                   (''tool'', JStr ''ghost'')]),
          tcr_success = False\<rparr>],
      pr_toolResults = None,
      pr_timing =
        \<lparr>tm_startTime = ISO 0, tm_endTime = ISO 0, tm_duration = 0, tm_modelTime = 0,
         tm_toolsTime = 0, tm_firstResponseTime = 0, tm_iterations = 2,
         tm_timeSegments =
           [\<lparr>ts_type = ModelSeg, ts_name = ''Initial response'', ts_startTime = 0,
             ts_endTime = 0, ts_duration = 0\<rparr>,
            \<lparr>ts_type = ToolSeg, ts_name = ''ghost'', ts_startTime = 0,
             ts_endTime = 0, ts_duration = 0\<rparr>,
            \<lparr>ts_type = ModelSeg, ts_name = ''Model response (iteration 1)'', ts_startTime = 0,
             ts_endTime = 0, ts_duration = 0\<rparr>]\<rparr>,
      pr_cost = None\<rparr>"

text \<open>The request of the two tools again, with a tool \<^verbatim>\<open>slow\<close> that throws.\<close>

definition flakyTool :: "string \<Rightarrow> thrown + tool_result" where
  "flakyTool name = (if name = ''slow'' then Inl (ErrorObj ''boom'' None) else echoTool name)"

definition flakyEnv :: env where
  "flakyEnv = scriptedEnv configured 10 idleClock raceScript flakyTool (preparedAuto [''slow'', ''fast''])"

text \<open>A model that asks for a tool in every response, under a cap of two iterations.\<close>

definition loopingScript :: "nat \<Rightarrow> thrown + response" where
  "loopingScript n = Inr (callsResponse [toolCallOf ''a'' ''slow'' ''{}''])"

definition capEnv :: env where
  "capEnv = scriptedEnv configured 2 idleClock loopingScript echoTool (preparedAuto [''slow'', ''fast''])"

text \<open>
  A model whose usage reports a total of 9 for 3 prompt and 2 completion tokens, and
  the model of the unknown tool again, for a request with no tools.
\<close>

definition oddScript :: "nat \<Rightarrow> thrown + response" where
  "oddScript n =
     Inr \<lparr>rs_message = Some \<lparr>cm_content = Some ''hi'', cm_tool_calls = None\<rparr>,
          rs_usage = Some \<lparr>prompt_tokens = Some 3, completion_tokens = Some 2,
                            total_tokens = Some 9\<rparr>\<rparr>"

definition oddEnv :: env where
  "oddEnv = scriptedEnv configured 10 idleClock oddScript echoTool autoPrepared"

definition initialSegment :: time_segment where
  "initialSegment =
     \<lparr>ts_type = ModelSeg, ts_name = ''Initial response'', ts_startTime = 0,
      ts_endTime = 0, ts_duration = 0\<rparr>"

definition oddResult :: provider_response where
  "oddResult =
     \<lparr>pr_content = ''hi'',
      pr_model = ''litellm/gpt-4'',
      pr_tokens = \<lparr>tk_input = 3, tk_output = 2, tk_total = 9\<rparr>,
      pr_toolCalls = None,
      pr_toolResults = None,
      pr_timing =
        \<lparr>tm_startTime = ISO 0, tm_endTime = ISO 0, tm_duration = 0, tm_modelTime = 0,
         tm_toolsTime = 0, tm_firstResponseTime = 0, tm_iterations = 1,
         tm_timeSegments = [initialSegment]\<rparr>,
      pr_cost = None\<rparr>"

definition bareGhostEnv :: env where
  "bareGhostEnv = scriptedEnv configured 10 idleClock ghostScript echoTool autoPrepared"




section \<open>Properties\<close>

subsection \<open>Strings and options\<close>

lemma orElse_Nil: "orElse x [] = orEmpty x"
  by (simp add: orElse_def truthyStr_def orEmpty_def split: option.split)

lemma orElse_None: "orElse None d = d"
  by (simp add: orElse_def truthyStr_def)

subsection \<open>The models route\<close>

lemma GET_status: "jr_status (GET E) = 200"
  by (simp add: GET_def NextResponse_json_def Let_def split: sum.split)

text \<open>
  Claim C9. The models route always answers with status 200. Its list is empty when the
  provider is blacklisted, when no base endpoint is configured, when the upstream answers
  with a status that is not a success, and when the upstream fetch throws. When the
  upstream answers with a list of ids, the route's list is what the blacklist filter
  leaves of the ids, each prefixed with \<^verbatim>\<open>litellm/\<close>; so, the filter returning only
  elements of its argument, every returned id is an upstream id with the prefix.
\<close>

theorem GET_models_route:
  "jr_status (GET E) = 200 \<and>
   (re_isProviderBlacklisted E ''litellm'' \<longrightarrow> jr_models (GET E) = []) \<and>
   (stripTrailingSlash (orEmpty (LITELLM_BASE_URL (re_config E))) = [] \<longrightarrow>
      jr_models (GET E) = []) \<and>
   (routeUpstream E = Inr r \<and> \<not> hr_ok r \<longrightarrow> jr_models (GET E) = []) \<and>
   (routeUpstream E = Inl e \<longrightarrow> jr_models (GET E) = []) \<and>
   (\<not> re_isProviderBlacklisted E ''litellm'' \<and>
    stripTrailingSlash (orEmpty (LITELLM_BASE_URL (re_config E))) \<noteq> [] \<and>
    routeUpstream E = Inr r \<and> hr_ok r \<and> hr_json r = Inr (Some ids) \<longrightarrow>
      jr_models (GET E) = re_filterBlacklistedModels E (map (\<lambda>i. ''litellm/'' @ i) ids) \<and>
      ((\<forall>xs. set (re_filterBlacklistedModels E xs) \<subseteq> set xs) \<longrightarrow>
         (\<forall>m \<in> set (jr_models (GET E)). \<exists>i \<in> set ids. m = ''litellm/'' @ i)))"
proof -
  have s: "jr_status (GET E) = 200" by (rule GET_status)
  have a: "re_isProviderBlacklisted E ''litellm'' \<longrightarrow> jr_models (GET E) = []"
    by (simp add: GET_def NextResponse_json_def)
  have b: "stripTrailingSlash (orEmpty (LITELLM_BASE_URL (re_config E))) = [] \<longrightarrow>
           jr_models (GET E) = []"
    by (simp add: GET_def NextResponse_json_def)
  have c: "routeUpstream E = Inr r \<and> \<not> hr_ok r \<longrightarrow> jr_models (GET E) = []"
    by (simp add: GET_def NextResponse_json_def routeUpstream_def Let_def)
  have d: "routeUpstream E = Inl e \<longrightarrow> jr_models (GET E) = []"
    by (simp add: GET_def NextResponse_json_def routeUpstream_def Let_def)
  have f: "jr_models (GET E) = re_filterBlacklistedModels E (map (\<lambda>i. ''litellm/'' @ i) ids)"
    if "\<not> re_isProviderBlacklisted E ''litellm''"
      "stripTrailingSlash (orEmpty (LITELLM_BASE_URL (re_config E))) \<noteq> []"
      "routeUpstream E = Inr r" "hr_ok r" "hr_json r = Inr (Some ids)"
    using that
    by (simp add: GET_def NextResponse_json_def routeUpstream_def Let_def readModels_def
          litellmId_def [abs_def])
  have g: "\<forall>m \<in> set (jr_models (GET E)). \<exists>i \<in> set ids. m = ''litellm/'' @ i"
    if "\<not> re_isProviderBlacklisted E ''litellm''"
      "stripTrailingSlash (orEmpty (LITELLM_BASE_URL (re_config E))) \<noteq> []"
      "routeUpstream E = Inr r" "hr_ok r" "hr_json r = Inr (Some ids)"
      "\<forall>xs. set (re_filterBlacklistedModels E xs) \<subseteq> set xs"
  proof
    fix m assume "m \<in> set (jr_models (GET E))"
    then have "m \<in> set (re_filterBlacklistedModels E (map (\<lambda>i. ''litellm/'' @ i) ids))"
      using f that by simp
    then have "m \<in> set (map (\<lambda>i. ''litellm/'' @ i) ids)"
      using that(6) by blast
    then show "\<exists>i \<in> set ids. m = ''litellm/'' @ i" by auto
  qed
  show ?thesis using s a b c d f g by blast
qed

text \<open>
  The route at concrete inputs: a blacklisted provider, no base endpoint, an upstream
  answering 503, a fetch that throws, and an upstream listing \<^verbatim>\<open>gpt-4\<close> and \<^verbatim>\<open>hidden\<close>.
\<close>

theorem GET_models_route_witness:
  "GET (routeEnv configured True (Inr upstreamModels)) = \<lparr>jr_status = 200, jr_models = []\<rparr> \<and>
   GET (routeEnv unconfigured False (Inr upstreamModels)) = \<lparr>jr_status = 200, jr_models = []\<rparr> \<and>
   GET (routeEnv configured False (Inr upstreamUnavailable)) = \<lparr>jr_status = 200, jr_models = []\<rparr> \<and>
   GET (routeEnv configured False (Inl networkError)) = \<lparr>jr_status = 200, jr_models = []\<rparr> \<and>
   GET (routeEnv configured False (Inr upstreamModels)) =
     \<lparr>jr_status = 200, jr_models = [''litellm/gpt-4'']\<rparr>"
proof -
  have base: "stripTrailingSlash (orEmpty (LITELLM_BASE_URL configured)) = ''http://llm''"
    by (simp add: stripTrailingSlash_def orEmpty_def configured_def)
  have nobase: "stripTrailingSlash (orEmpty (LITELLM_BASE_URL unconfigured)) = []"
    by (simp add: stripTrailingSlash_def orEmpty_def unconfigured_def)
  have up: "routeUpstream (routeEnv c b u) = u" for c b u
    by (simp add: routeUpstream_def routeEnv_def)
  have sub: "\<forall>xs. set (re_filterBlacklistedModels (routeEnv c b u) xs) \<subseteq> set xs" for c b u
    by (simp add: routeEnv_def)
  have 1: "jr_models (GET (routeEnv configured True (Inr upstreamModels))) = []"
    using GET_models_route [of "routeEnv configured True (Inr upstreamModels)"]
    by (simp add: routeEnv_def)
  have 2: "jr_models (GET (routeEnv unconfigured False (Inr upstreamModels))) = []"
    using GET_models_route [of "routeEnv unconfigured False (Inr upstreamModels)"] nobase
    by (simp add: routeEnv_def)
  have 3: "jr_models (GET (routeEnv configured False (Inr upstreamUnavailable))) = []"
    using GET_models_route [of "routeEnv configured False (Inr upstreamUnavailable)"
        upstreamUnavailable] up
    by (simp add: upstreamUnavailable_def)
  have 4: "jr_models (GET (routeEnv configured False (Inl networkError))) = []"
    using GET_models_route [of "routeEnv configured False (Inl networkError)" _ networkError] up
    by simp
  have 5: "jr_models (GET (routeEnv configured False (Inr upstreamModels))) =
           [''litellm/gpt-4'']"
    using GET_models_route [of "routeEnv configured False (Inr upstreamModels)"
        upstreamModels _ "[''gpt-4'', ''hidden'']"] up base
    by (simp add: routeEnv_def upstreamModels_def)
  have st: "jr_status (GET E) = 200" for E
    using GET_models_route [of E] by simp
  have eq: "x = \<lparr>jr_status = jr_status x, jr_models = jr_models x\<rparr>" for x :: json_response
    by simp
  show ?thesis
    by (metis 1 2 3 4 5 st eq)
qed

subsection \<open>Configuration absence\<close>

lemma requestBaseUrl_unconfigured:
  "\<not> truthyStr (rq_azureEndpoint rq) \<Longrightarrow>
   requestBaseUrl E rq = stripTrailingSlash (orEmpty (LITELLM_BASE_URL (e_config E)))"
  by (simp add: requestBaseUrl_def orElse_Nil) (simp add: orElse_def)

text \<open>
  Claim C4, as the code has it. With no base endpoint configured (the variable unset,
  empty or a lone slash), discovery returns without a change of state and without a
  throw, and the models route answers the empty list with status 200; request execution
  (with no endpoint in the request either) throws the error
  \<^verbatim>\<open>LITELLM_BASE_URL is required for LiteLLM provider\<close>.
\<close>

theorem configuration_absence:
  "stripTrailingSlash (orEmpty (LITELLM_BASE_URL c)) = [] \<Longrightarrow>
     (ie_config IE = c \<longrightarrow> initialize IE s = Inr s) \<and>
     (re_config RE = c \<longrightarrow> GET RE = \<lparr>jr_status = 200, jr_models = []\<rparr>) \<and>
     (e_config E = c \<and> \<not> truthyStr (rq_azureEndpoint rq) \<longrightarrow>
        executeRequest E rq =
          Inl \<lparr>er_message = ''LITELLM_BASE_URL is required for LiteLLM provider'',
               er_timing = None, er_litellmErrorType = None, er_litellmErrorCode = None\<rparr>)"
  by (auto simp: initialize_def GET_def NextResponse_json_def executeRequest_def
        requestBaseUrl_unconfigured)

text \<open>
  Claim C4 as stated fails for request execution: with no base endpoint in the
  environment and none in the request, \<^verbatim>\<open>executeRequest\<close> throws.
\<close>

theorem configuration_absence_counterexample:
  "LITELLM_BASE_URL (e_config unconfiguredEnv) = None \<and>
   rq_azureEndpoint plainRequest = None \<and>
   executeRequest unconfiguredEnv plainRequest =
     Inl \<lparr>er_message = ''LITELLM_BASE_URL is required for LiteLLM provider'',
          er_timing = None, er_litellmErrorType = None, er_litellmErrorCode = None\<rparr>"
  by (simp add: unconfiguredEnv_def scriptedEnv_def unconfigured_def plainRequest_def
        executeRequest_def requestBaseUrl_def orElse_def truthyStr_def orEmpty_def
        stripTrailingSlash_def)

theorem configuration_absence_witness:
  "stripTrailingSlash (orEmpty (LITELLM_BASE_URL unconfigured)) = [] \<and>
   initialize (initEnv unconfigured) noModels = Inr noModels \<and>
   GET (routeEnv unconfigured False (Inr upstreamModels)) = \<lparr>jr_status = 200, jr_models = []\<rparr> \<and>
   executeRequest unconfiguredEnv plainRequest =
     Inl \<lparr>er_message = ''LITELLM_BASE_URL is required for LiteLLM provider'',
          er_timing = None, er_litellmErrorType = None, er_litellmErrorCode = None\<rparr>"
proof -
  have h: "stripTrailingSlash (orEmpty (LITELLM_BASE_URL unconfigured)) = []"
    by (simp add: stripTrailingSlash_def orEmpty_def unconfigured_def)
  have c1: "ie_config (initEnv unconfigured) = unconfigured" by (simp add: initEnv_def)
  have c2: "re_config (routeEnv unconfigured False (Inr upstreamModels)) = unconfigured"
    by (simp add: routeEnv_def)
  have c3: "e_config unconfiguredEnv = unconfigured \<and> \<not> truthyStr (rq_azureEndpoint plainRequest)"
    by (simp add: unconfiguredEnv_def scriptedEnv_def plainRequest_def truthyStr_def)
  from configuration_absence [OF h, of "initEnv unconfigured" noModels
      "routeEnv unconfigured False (Inr upstreamModels)" unconfiguredEnv plainRequest] c1 c2 c3 h
  show ?thesis by simp
qed

subsection \<open>A batch of tool calls\<close>

lemma recordSettled_Some:
  "recordSettled E st (Fulfilled (Some v)) =
     st\<lparr>ls_timeSegments := ls_timeSegments st @ [toolSegment v],
        ls_toolResults := ls_toolResults st @ outputsOf [v],
        ls_toolCalls := ls_toolCalls st @ [toolCallRecord v],
        ls_currentMessages := ls_currentMessages st @ [toolMessage E v]\<rparr>"
  by (simp add: recordSettled_def outputsOf_def)

lemma recordSettled_skip:
  "recordSettled E st (Fulfilled None) = st" "recordSettled E st (Rejected e) = st"
  by (simp_all add: recordSettled_def)

lemma outputsOf_Cons: "outputsOf (v # vs) = outputsOf [v] @ outputsOf vs"
  by (simp add: outputsOf_def)

lemma foldl_recordSettled:
  "foldl (recordSettled E) st rs =
     st\<lparr>ls_timeSegments := ls_timeSegments st @ map toolSegment (fulfilledValues rs),
        ls_toolResults := ls_toolResults st @ outputsOf (fulfilledValues rs),
        ls_toolCalls := ls_toolCalls st @ map toolCallRecord (fulfilledValues rs),
        ls_currentMessages := ls_currentMessages st @ map (toolMessage E) (fulfilledValues rs)\<rparr>"
proof (induction rs arbitrary: st rule: fulfilledValues.induct)
  case 1
  show ?case by (simp add: outputsOf_def)
next
  case (2 e rs)
  then show ?case by (simp add: recordSettled_skip)
next
  case (3 rs)
  then show ?case by (simp add: recordSettled_skip)
next
  case (4 v rs)
  show ?case
    by (simp add: recordSettled_Some "4.IH" outputsOf_Cons [of v "fulfilledValues rs"])
qed

lemma runTools_eq:
  "runTools E rq calls st =
     st\<lparr>ls_timeSegments := ls_timeSegments st @
                            map toolSegment (executed E rq (ls_iterationCount st) calls),
        ls_toolResults := ls_toolResults st @
                            outputsOf (executed E rq (ls_iterationCount st) calls),
        ls_toolCalls := ls_toolCalls st @
                            map toolCallRecord (executed E rq (ls_iterationCount st) calls),
        ls_currentMessages := ls_currentMessages st @ [assistantMessage calls] @
                            map (toolMessage E) (executed E rq (ls_iterationCount st) calls),
        ls_toolsTime := ls_toolsTime st +
           (e_now E (ToolsEnd (ls_iterationCount st)) - e_now E (ToolsStart (ls_iterationCount st)))\<rparr>"
  by (simp add: runTools_def Let_def foldl_recordSettled executed_def)

lemma runToolCall_Some:
  "runToolCall E rq k i toolCall = Some v \<Longrightarrow>
   te_toolCall v = toolCall \<and> te_toolName v = tc_name toolCall \<and>
   te_startTime v = e_now E (ToolCallStart k i) \<and> te_endTime v = e_now E (ToolCallEnd k i) \<and>
   te_duration v = e_now E (ToolCallEnd k i) - e_now E (ToolCallStart k i)"
  by (auto simp: runToolCall_def tryToolCall_def Let_def
           split: sum.splits option.splits prod.splits)

lemma fulfilledValues_enumerate_subseq:
  "subseq (map te_toolCall
      (fulfilledValues (map (\<lambda>(i, toolCall). Fulfilled (runToolCall E rq k i toolCall))
         (enumerate n calls)))) calls"
proof (induction calls arbitrary: n)
  case Nil
  show ?case by simp
next
  case (Cons c cs)
  show ?case
  proof (cases "runToolCall E rq k n c")
    case None
    then show ?thesis using Cons [of "Suc n"] by (simp add: list_emb_Cons)
  next
    case (Some v)
    then have "te_toolCall v = c" by (simp add: runToolCall_Some)
    then show ?thesis using Some Cons [of "Suc n"] by simp
  qed
qed

lemma executed_subseq: "subseq (map te_toolCall (executed E rq k calls)) calls"
  by (simp add: executed_def executeBatch_def fulfilledValues_enumerate_subseq)

lemma executeBatch_nth:
  "i < length calls \<Longrightarrow>
   executeBatch E rq k calls ! i = Fulfilled (runToolCall E rq k i (calls ! i))"
  by (simp add: executeBatch_def nth_enumerate_eq)

lemma length_executeBatch: "length (executeBatch E rq k calls) = length calls"
  by (simp add: executeBatch_def)

subsection \<open>One pass of the loop\<close>

lemma loopBody_break:
  "noToolCalls (ls_currentResponse st) \<Longrightarrow> loopBody E cl rq p fs st = LoopBreak (beforeTools rq st)"
  by (simp add: loopBody_def noToolCalls_def beforeTools_def Let_def split: option.splits)

lemma loopBody_calls:
  "responseToolCalls (ls_currentResponse st) = Some calls \<Longrightarrow> calls \<noteq> [] \<Longrightarrow>
   loopBody E cl rq p fs st =
     (case e_chatCreate E cl (Suc (ls_iterationCount st)) (passPayload E rq p fs calls st) of
        Inl error \<Rightarrow> LoopThrow error
      | Inr r \<Rightarrow> LoopContinue (afterModelCall E rq fs (passPayload E rq p fs calls st) r
                   (runTools E rq calls (beforeTools rq st))))"
  unfolding passPayload_def beforeTools_def by (simp add: loopBody_def Let_def)

lemma noToolCalls_iff:
  "\<not> noToolCalls r \<longleftrightarrow> (\<exists>calls. responseToolCalls r = Some calls \<and> calls \<noteq> [])"
  by (simp add: noToolCalls_def split: option.split)

lemma loopBody_Continue_D:
  assumes "loopBody E cl rq p fs st = LoopContinue st'"
  obtains calls r where "responseToolCalls (ls_currentResponse st) = Some calls" "calls \<noteq> []"
    "e_chatCreate E cl (Suc (ls_iterationCount st)) (passPayload E rq p fs calls st) = Inr r"
    "st' = afterModelCall E rq fs (passPayload E rq p fs calls st) r
             (runTools E rq calls (beforeTools rq st))"
proof (cases "noToolCalls (ls_currentResponse st)")
  case True
  then show ?thesis using assms by (simp add: loopBody_break)
next
  case False
  then obtain calls where c: "responseToolCalls (ls_currentResponse st) = Some calls" "calls \<noteq> []"
    by (auto simp: noToolCalls_iff)
  show ?thesis using assms that [OF c] by (auto simp: loopBody_calls [OF c] split: sum.splits)
qed

lemma checkForForcedToolUsage_fields:
  "ls_timeSegments (checkForForcedToolUsage fs r c st) = ls_timeSegments st"
  "ls_toolCalls (checkForForcedToolUsage fs r c st) = ls_toolCalls st"
  "ls_toolResults (checkForForcedToolUsage fs r c st) = ls_toolResults st"
  "ls_currentMessages (checkForForcedToolUsage fs r c st) = ls_currentMessages st"
  "ls_tokens (checkForForcedToolUsage fs r c st) = ls_tokens st"
  "ls_currentResponse (checkForForcedToolUsage fs r c st) = ls_currentResponse st"
  "ls_content (checkForForcedToolUsage fs r c st) = ls_content st"
  "ls_modelTime (checkForForcedToolUsage fs r c st) = ls_modelTime st"
  "ls_toolsTime (checkForForcedToolUsage fs r c st) = ls_toolsTime st"
  by (simp_all add: checkForForcedToolUsage_def Let_def split: option.split tool_choice.split)

lemma afterModelCall_fields:
  "ls_timeSegments (afterModelCall E rq fs np r st) =
     ls_timeSegments st @ [modelSegment E (ls_iterationCount st)]"
  "ls_toolCalls (afterModelCall E rq fs np r st) = ls_toolCalls st"
  "ls_toolResults (afterModelCall E rq fs np r st) = ls_toolResults st"
  "ls_currentMessages (afterModelCall E rq fs np r st) = ls_currentMessages st"
  "ls_tokens (afterModelCall E rq fs np r st) = addUsage (ls_tokens st) r"
  "ls_currentResponse (afterModelCall E rq fs np r st) = r"
  "ls_toolsTime (afterModelCall E rq fs np r st) = ls_toolsTime st"
  by (simp_all add: afterModelCall_def Let_def checkForForcedToolUsage_fields
        checkForForcedToolUsage_iterationCount)

lemma beforeTools_fields:
  "ls_timeSegments (beforeTools rq st) = ls_timeSegments st"
  "ls_toolCalls (beforeTools rq st) = ls_toolCalls st"
  "ls_toolResults (beforeTools rq st) = ls_toolResults st"
  "ls_currentMessages (beforeTools rq st) = ls_currentMessages st"
  "ls_tokens (beforeTools rq st) = ls_tokens st"
  "ls_currentResponse (beforeTools rq st) = ls_currentResponse st"
  "ls_iterationCount (beforeTools rq st) = ls_iterationCount st"
  "ls_usedForcedTools (beforeTools rq st) = ls_usedForcedTools st"
  "ls_hasUsedForcedTool (beforeTools rq st) = ls_hasUsedForcedTool st"
  by (simp_all add: beforeTools_def)

lemma runTools_fields:
  "ls_timeSegments (runTools E rq calls st) =
     ls_timeSegments st @ map toolSegment (executed E rq (ls_iterationCount st) calls)"
  "ls_toolCalls (runTools E rq calls st) =
     ls_toolCalls st @ map toolCallRecord (executed E rq (ls_iterationCount st) calls)"
  "ls_toolResults (runTools E rq calls st) =
     ls_toolResults st @ outputsOf (executed E rq (ls_iterationCount st) calls)"
  "ls_currentMessages (runTools E rq calls st) =
     ls_currentMessages st @ [assistantMessage calls] @
     map (toolMessage E) (executed E rq (ls_iterationCount st) calls)"
  "ls_tokens (runTools E rq calls st) = ls_tokens st"
  "ls_currentResponse (runTools E rq calls st) = ls_currentResponse st"
  "ls_usedForcedTools (runTools E rq calls st) = ls_usedForcedTools st"
  "ls_hasUsedForcedTool (runTools E rq calls st) = ls_hasUsedForcedTool st"
  by (simp_all add: runTools_eq)

lemma fulfilledValues_mem:
  "v \<in> set (fulfilledValues rs) \<Longrightarrow> Fulfilled (Some v) \<in> set rs"
  by (induction rs rule: fulfilledValues.induct) auto

lemma executed_mem:
  assumes "v \<in> set (executed E rq k calls)"
  obtains i where "i < length calls" "runToolCall E rq k i (calls ! i) = Some v"
proof -
  from assms have "Fulfilled (Some v) \<in> set (executeBatch E rq k calls)"
    by (simp add: executed_def fulfilledValues_mem)
  then obtain i where "i < length (executeBatch E rq k calls)"
    "executeBatch E rq k calls ! i = Fulfilled (Some v)"
    by (auto simp: in_set_conv_nth)
  then show ?thesis using that [of i] by (simp add: length_executeBatch executeBatch_nth)
qed

lemma executed_names:
  "v \<in> set (executed E rq k calls) \<Longrightarrow> te_toolName v = tc_name (te_toolCall v)"
  by (erule executed_mem) (simp add: runToolCall_Some)

subsection \<open>Evaluation at concrete inputs\<close>

lemmas model_defs =
  executeRequest_def requestBaseUrl_def requestClient_def tryRequest_def initialPayload_def
  basePayload_def buildMessages_def buildTools_def prepareTools_def activeTools_def
  hasActiveTools_def forcedToolsOf_def truthyChoice_def initialState_def initialContent_def
  initialTokens_def checkForForcedToolUsage_def finalResult_def firstResponseTime_def
  loopBody_def runTools_def executeBatch_def runToolCall_def tryToolCall_def requestTools_def
  recordSettled_def toolSegment_def toolCallRecord_def toolMessage_def resultContent_def
  assistantMessage_def nextPayload_def isObjectChoice_def afterModelCall_def modelSegment_def
  updateContent_def cleaned_def addUsage_def orZero_def responseContent_def
  responseToolCalls_def orElse_def orEmpty_def truthyStr_def stripTrailingSlash_def
  stripLitellmPrefix_def textMessage_def toolErrorMessage_def

lemmas fixture_defs =
  scriptedEnv_def configured_def plainRequest_def textResponse_def toolDef_def fnTool_def
  toolCallOf_def callsResponse_def echoTool_def toolsRequest_def preparedAuto_def

lemma string_of_nat_1: "string_of_nat (Suc 0) = ''1''"
  by code_simp

subsection \<open>The order of the records of a batch\<close>

text \<open>
  Claim C1, as the code has it. \<^verbatim>\<open>Promise.allSettled\<close> gives the outcomes at the
  positions of the tool calls, so in every pass of the loop that goes on to the next
  model call, the tool call records, the tool time segments and the tool-result messages
  appended are those of the recorded executions in the order of the response's
  \<^verbatim>\<open>tool_calls\<close> (the dispatch order): the calls recorded are a subsequence of
  \<^verbatim>\<open>tool_calls\<close>, whatever the times at which they settled.
\<close>

theorem tool_records_in_dispatch_order:
  assumes "loopBody E cl rq p fs st = LoopContinue st'"
  shows "\<exists>calls vs.
     responseToolCalls (ls_currentResponse st) = Some calls \<and>
     vs = executed E rq (ls_iterationCount st) calls \<and>
     subseq (map te_toolCall vs) calls \<and>
     ls_toolCalls st' = ls_toolCalls st @ map toolCallRecord vs \<and>
     ls_timeSegments st' =
       ls_timeSegments st @ map toolSegment vs @ [modelSegment E (ls_iterationCount st)] \<and>
     ls_currentMessages st' =
       ls_currentMessages st @ [assistantMessage calls] @ map (toolMessage E) vs \<and>
     map tcr_name (map toolCallRecord vs) = map tc_name (map te_toolCall vs) \<and>
     map ts_name (map toolSegment vs) = map tc_name (map te_toolCall vs) \<and>
     map m_tool_call_id (map (toolMessage E) vs) = map Some (map tc_id (map te_toolCall vs))"
proof -
  from assms obtain calls r where
    c: "responseToolCalls (ls_currentResponse st) = Some calls" and
    st': "st' = afterModelCall E rq fs (passPayload E rq p fs calls st) r
             (runTools E rq calls (beforeTools rq st))"
    by (rule loopBody_Continue_D)
  let ?vs = "executed E rq (ls_iterationCount st) calls"
  have 1: "subseq (map te_toolCall ?vs) calls" by (rule executed_subseq)
  have 2: "ls_toolCalls st' = ls_toolCalls st @ map toolCallRecord ?vs"
    by (simp add: st' afterModelCall_fields runTools_fields beforeTools_fields)
  have 3: "ls_timeSegments st' =
       ls_timeSegments st @ map toolSegment ?vs @ [modelSegment E (ls_iterationCount st)]"
    by (simp add: st' afterModelCall_fields runTools_fields beforeTools_fields
          runTools_iterationCount)
  have 4: "ls_currentMessages st' =
       ls_currentMessages st @ [assistantMessage calls] @ map (toolMessage E) ?vs"
    by (simp add: st' afterModelCall_fields runTools_fields beforeTools_fields)
  have 5: "map tcr_name (map toolCallRecord ?vs) = map tc_name (map te_toolCall ?vs)"
    by (simp add: toolCallRecord_def executed_names)
  have 6: "map ts_name (map toolSegment ?vs) = map tc_name (map te_toolCall ?vs)"
    by (simp add: toolSegment_def executed_names)
  have 7: "map m_tool_call_id (map (toolMessage E) ?vs) = map Some (map tc_id (map te_toolCall ?vs))"
    by (simp add: toolMessage_def)
  show ?thesis using c 1 2 3 4 5 6 7 by blast
qed

text \<open>
  Claim C1 as stated fails: \<^verbatim>\<open>fast\<close> settles (at 5) before \<^verbatim>\<open>slow\<close> (at 10), and the
  records of \<^verbatim>\<open>slow\<close> still come first, as in the response.
\<close>

theorem tool_records_in_dispatch_order_counterexample:
  "executeRequest raceEnv raceRequest = Inr (Buffered raceResult) \<and>
   e_now raceEnv (ToolCallEnd 0 1) = 5 \<and> e_now raceEnv (ToolCallEnd 0 0) = 10 \<and>
   map ts_name (tm_timeSegments (pr_timing raceResult)) =
     [''Initial response'', ''slow'', ''fast'', ''Model response (iteration 1)''] \<and>
   map ts_endTime (tm_timeSegments (pr_timing raceResult)) = [0, 10, 5, 0]"
proof -
  have "executeRequest raceEnv raceRequest = Inr (Buffered raceResult)"
    by (simp add: model_defs fixture_defs raceEnv_def raceRequest_def raceClock_def raceScript_def
        raceResult_def toolLoop.simps string_of_nat_1 enumerate_eq_zip Let_def)
  then show ?thesis
    by (simp add: raceResult_def raceEnv_def scriptedEnv_def raceClock_def)
qed

text \<open>The first pass of that request.\<close>

theorem tool_records_in_dispatch_order_witness:
  "\<exists>st'. loopBody raceEnv (requestClient raceEnv raceRequest) raceRequest
           (initialPayload raceEnv raceRequest) []
           (initialState raceEnv raceRequest (initialPayload raceEnv raceRequest)
              (callsResponse raceCalls)) = LoopContinue st' \<and>
         map tcr_name (ls_toolCalls st') = [''slow'', ''fast''] \<and>
         map ts_name (ls_timeSegments st') =
           [''Initial response'', ''slow'', ''fast'', ''Model response (iteration 1)'']"
proof -
  let ?st = "initialState raceEnv raceRequest (initialPayload raceEnv raceRequest)
              (callsResponse raceCalls)"
  have r: "responseToolCalls (ls_currentResponse ?st) = Some raceCalls"
    by (simp add: model_defs fixture_defs raceEnv_def raceRequest_def)
  have k: "ls_iterationCount ?st = 0" "ls_toolCalls ?st = []"
    "map ts_name (ls_timeSegments ?st) = [''Initial response'']"
    by (simp_all add: model_defs fixture_defs raceEnv_def raceRequest_def)
  have ne: "raceCalls \<noteq> []" by (simp add: raceCalls_def)
  have "\<exists>st'. loopBody raceEnv (requestClient raceEnv raceRequest) raceRequest
           (initialPayload raceEnv raceRequest) [] ?st = LoopContinue st'"
    by (simp add: loopBody_calls [OF r ne]) (simp add: raceEnv_def scriptedEnv_def raceScript_def)
  then obtain st' where c: "loopBody raceEnv (requestClient raceEnv raceRequest) raceRequest
           (initialPayload raceEnv raceRequest) [] ?st = LoopContinue st'" ..
  have ex: "map te_toolName (executed raceEnv raceRequest 0 raceCalls) = [''slow'', ''fast'']"
    by (simp add: executed_def raceCalls_def model_defs fixture_defs raceEnv_def raceRequest_def
          enumerate_eq_zip Let_def)
  from tool_records_in_dispatch_order [OF c] r k ex
  have "map tcr_name (ls_toolCalls st') = [''slow'', ''fast''] \<and>
         map ts_name (ls_timeSegments st') =
           [''Initial response'', ''slow'', ''fast'', ''Model response (iteration 1)'']"
    by (auto simp: toolCallRecord_def toolSegment_def modelSegment_def string_of_nat_1 comp_def)
  with c show ?thesis by (intro exI [of _ st']) simp
qed

subsection \<open>Tool calls that name no tool of the request\<close>

lemma tryToolCall_unknown:
  assumes "e_JSON_parse E (tc_arguments toolCall) = Inr toolArgs"
      and "\<forall>t \<in> set (requestTools rq). td_id t \<noteq> tc_name toolCall"
  shows "tryToolCall E rq k i toolCall = Inr None"
proof -
  have "find (\<lambda>t. td_id t = tc_name toolCall) (requestTools rq) = None"
    using assms(2) by (simp add: find_None_iff)
  then show ?thesis using assms(1) by (simp add: tryToolCall_def Let_def)
qed

lemma loopBody_Throw_D:
  assumes "loopBody E cl rq p fs st = LoopThrow e"
  shows "\<exists>calls. responseToolCalls (ls_currentResponse st) = Some calls \<and>
     e_chatCreate E cl (Suc (ls_iterationCount st)) (passPayload E rq p fs calls st) = Inl e"
proof (cases "noToolCalls (ls_currentResponse st)")
  case True
  then show ?thesis using assms by (simp add: loopBody_break)
next
  case False
  then obtain calls where c: "responseToolCalls (ls_currentResponse st) = Some calls" "calls \<noteq> []"
    by (auto simp: noToolCalls_iff)
  show ?thesis using assms c by (auto simp: loopBody_calls [OF c] split: sum.splits)
qed

text \<open>
  Claim C10, as the code has it. A tool call whose arguments parse as JSON and whose
  function name is the id of no tool of the request resolves to \<^verbatim>\<open>null\<close>: its turn of
  the loop over the settled results leaves the state as it is (no tool call record, no
  tool time segment, no tool-result message), no recorded execution of the batch is for
  it, the assistant message still lists its id, and a pass throws only what its model
  call throws.
\<close>

theorem unknown_tool_call_dropped:
  assumes "e_JSON_parse E (tc_arguments toolCall) = Inr toolArgs"
      and "\<forall>t \<in> set (requestTools rq). td_id t \<noteq> tc_name toolCall"
  shows "runToolCall E rq k i toolCall = None \<and>
         recordSettled E st (Fulfilled (runToolCall E rq k i toolCall)) = st \<and>
         toolCall \<notin> te_toolCall ` set (executed E rq k calls) \<and>
         (toolCall \<in> set calls \<longrightarrow>
            tc_id toolCall \<in> tc_id ` set (case m_tool_calls (assistantMessage calls) of
                                            None \<Rightarrow> [] | Some cs \<Rightarrow> cs)) \<and>
         (loopBody E cl rq p fs st = LoopThrow e \<longrightarrow>
            (\<exists>cs. e_chatCreate E cl (Suc (ls_iterationCount st)) (passPayload E rq p fs cs st) = Inl e))"
proof -
  have none: "runToolCall E rq k j toolCall = None" for j
    using tryToolCall_unknown [OF assms] by (simp add: runToolCall_def)
  have 2: "recordSettled E st (Fulfilled (runToolCall E rq k i toolCall)) = st"
    by (simp add: none recordSettled_skip)
  have 3: "toolCall \<notin> te_toolCall ` set (executed E rq k calls)"
  proof
    assume "toolCall \<in> te_toolCall ` set (executed E rq k calls)"
    then obtain v where v: "v \<in> set (executed E rq k calls)" "te_toolCall v = toolCall" by auto
    from v(1) obtain j where "runToolCall E rq k j (calls ! j) = Some v" by (rule executed_mem)
    then show False using v(2) none [of j] by (simp add: runToolCall_Some)
  qed
  have 4: "toolCall \<in> set calls \<longrightarrow>
            tc_id toolCall \<in> tc_id ` set (case m_tool_calls (assistantMessage calls) of
                                            None \<Rightarrow> [] | Some cs \<Rightarrow> cs)"
    by (auto simp: assistantMessage_def image_iff)
  have 5: "loopBody E cl rq p fs st = LoopThrow e \<longrightarrow>
            (\<exists>cs. e_chatCreate E cl (Suc (ls_iterationCount st)) (passPayload E rq p fs cs st) = Inl e)"
    using loopBody_Throw_D [of E cl rq p fs st e] by blast
  show ?thesis using none 2 3 4 5 by blast
qed

text \<open>
  Claim C10 as stated fails when the arguments are not JSON: \<^verbatim>\<open>JSON.parse\<close> runs before
  the tool is looked up, its exception is caught, and the call is recorded as a failed
  tool call with a time segment.
\<close>

theorem unknown_tool_call_dropped_counterexample:
  "find (\<lambda>t. td_id t = ''ghost'') (requestTools ghostRequest) = None \<and>
   e_chatCreate ghostEnv (requestClient ghostEnv ghostRequest) 0 (initialPayload ghostEnv ghostRequest) =
     Inr (callsResponse [toolCallOf ''c1'' ''ghost'' ''not json'']) \<and>
   executeRequest ghostEnv ghostRequest = Inr (Buffered ghostResult)"
  by (simp add: model_defs fixture_defs ghostEnv_def ghostRequest_def idleClock_def ghostScript_def
        ghostResult_def toolLoop.simps string_of_nat_1 enumerate_eq_zip Let_def)

theorem unknown_tool_call_dropped_witness:
  "e_JSON_parse raceEnv (tc_arguments (toolCallOf ''c1'' ''ghost'' ''{}'')) = Inr (JObj []) \<and>
   runToolCall raceEnv raceRequest 0 1 (toolCallOf ''c1'' ''ghost'' ''{}'') = None \<and>
   toolCallOf ''c1'' ''ghost'' ''{}'' \<notin>
     te_toolCall ` set (executed raceEnv raceRequest 0
                         [toolCallOf ''a'' ''slow'' ''{}'', toolCallOf ''c1'' ''ghost'' ''{}''])"
proof -
  let ?c = "toolCallOf ''c1'' ''ghost'' ''{}''"
  have p: "e_JSON_parse raceEnv (tc_arguments ?c) = Inr (JObj [])"
    by (simp add: raceEnv_def scriptedEnv_def toolCallOf_def)
  have u: "\<forall>t \<in> set (requestTools raceRequest). td_id t \<noteq> tc_name ?c"
    by (simp add: requestTools_def raceRequest_def toolsRequest_def toolDef_def toolCallOf_def
          plainRequest_def)
  from unknown_tool_call_dropped [OF p u, of 0 1 _ "[toolCallOf ''a'' ''slow'' ''{}'', ?c]"] p
  show ?thesis by blast
qed

subsection \<open>The passes of the loop\<close>

lemma modelSegments_append: "modelSegments (xs @ ys) = modelSegments xs @ modelSegments ys"
  by (simp add: modelSegments_def)

lemma modelSegments_tools: "modelSegments (map toolSegment vs) = []"
  by (simp add: modelSegments_def toolSegment_def)

lemma modelSegments_model: "modelSegments [modelSegment E k] = [modelSegment E k]"
  by (simp add: modelSegments_def modelSegment_def)

lemma batchMessages_append: "batchMessages (xs @ ys) = batchMessages xs @ batchMessages ys"
  by (simp add: batchMessages_def)

lemma batchMessages_tools: "batchMessages (map (toolMessage E) vs) = []"
  by (simp add: batchMessages_def toolMessage_def)

lemma batchMessages_assistant:
  "batchMessages (assistantMessage calls # ms) = assistantMessage calls # batchMessages ms"
  by (simp add: batchMessages_def assistantMessage_def)

lemma passState_fields:
  "ls_iterationCount (passState E rq p fs calls r st) = Suc (ls_iterationCount st)"
  "ls_currentResponse (passState E rq p fs calls r st) = r"
  "ls_tokens (passState E rq p fs calls r st) = addUsage (ls_tokens st) r"
  "modelSegments (ls_timeSegments (passState E rq p fs calls r st)) =
     modelSegments (ls_timeSegments st) @ [modelSegment E (ls_iterationCount st)]"
  "batchMessages (ls_currentMessages (passState E rq p fs calls r st)) =
     batchMessages (ls_currentMessages st) @ [assistantMessage calls]"
  by (simp_all add: passState_def afterModelCall_fields afterModelCall_iterationCount
        runTools_fields runTools_iterationCount beforeTools_fields modelSegments_append
        modelSegments_tools modelSegments_model batchMessages_append batchMessages_tools
        batchMessages_assistant)

lemma loopBody_continue:
  "responseToolCalls (ls_currentResponse st) = Some calls \<Longrightarrow> calls \<noteq> [] \<Longrightarrow>
   e_chatCreate E cl (Suc (ls_iterationCount st)) (passPayload E rq p fs calls st) = Inr r \<Longrightarrow>
   loopBody E cl rq p fs st = LoopContinue (passState E rq p fs calls r st)"
  by (simp add: loopBody_calls passState_def)

lemma toolLoop_bound:
  "toolLoop E cl rq p fs st = Inr st' \<Longrightarrow>
   ls_iterationCount st \<le> ls_iterationCount st' \<and>
   ls_iterationCount st' \<le> max (ls_iterationCount st) (e_MAX_TOOL_ITERATIONS E) \<and>
   length (modelSegments (ls_timeSegments st')) =
     length (modelSegments (ls_timeSegments st)) + (ls_iterationCount st' - ls_iterationCount st)"
proof (induction E cl rq p fs st rule: toolLoop.induct)
  case (1 E cl rq p fs st)
  show ?case
  proof (cases "ls_iterationCount st < e_MAX_TOOL_ITERATIONS E")
    case False
    then show ?thesis using "1.prems" by (subst (asm) toolLoop.simps) auto
  next
    case True
    show ?thesis
    proof (cases "loopBody E cl rq p fs st")
      case (LoopBreak st1)
      then have "st1 = beforeTools rq st"
        by (cases "noToolCalls (ls_currentResponse st)")
           (auto simp: loopBody_break noToolCalls_iff loopBody_calls split: sum.splits)
      then show ?thesis using "1.prems" True LoopBreak
        by (subst (asm) toolLoop.simps) (auto simp: beforeTools_fields)
    next
      case (LoopThrow e)
      then show ?thesis using "1.prems" True by (subst (asm) toolLoop.simps) simp
    next
      case (LoopContinue st1)
      then obtain calls r where st1: "st1 = passState E rq p fs calls r st"
        by (auto elim: loopBody_Continue_D simp: passState_def)
      have "toolLoop E cl rq p fs st1 = Inr st'"
        using "1.prems" True LoopContinue by (subst (asm) toolLoop.simps) simp
      from "1.IH" [OF True LoopContinue this] True show ?thesis
        by (auto simp: st1 passState_fields)
    qed
  qed
qed

lemma toolLoop_cap:
  assumes "\<forall>n p. \<exists>r. e_chatCreate E cl n p = Inr r \<and> \<not> noToolCalls r"
      and "\<not> noToolCalls (ls_currentResponse st)"
      and "ls_iterationCount st \<le> e_MAX_TOOL_ITERATIONS E"
  shows "\<exists>st'. toolLoop E cl rq p fs st = Inr st' \<and>
           ls_iterationCount st' = e_MAX_TOOL_ITERATIONS E \<and>
           \<not> noToolCalls (ls_currentResponse st')"
  using assms(2,3)
proof (induction "e_MAX_TOOL_ITERATIONS E - ls_iterationCount st" arbitrary: st)
  case 0
  then have "toolLoop E cl rq p fs st = Inr st" by (subst toolLoop.simps) simp
  then show ?case using 0 by simp
next
  case (Suc d)
  then have lt: "ls_iterationCount st < e_MAX_TOOL_ITERATIONS E" by simp
  from Suc.prems(1) obtain calls where
    c: "responseToolCalls (ls_currentResponse st) = Some calls" "calls \<noteq> []"
    by (auto simp: noToolCalls_iff)
  from assms(1) obtain r where
    r: "e_chatCreate E cl (Suc (ls_iterationCount st)) (passPayload E rq p fs calls st) = Inr r"
       "\<not> noToolCalls r"
    by blast
  let ?st = "passState E rq p fs calls r st"
  have step: "toolLoop E cl rq p fs st = toolLoop E cl rq p fs ?st"
    using lt by (subst toolLoop.simps) (simp add: loopBody_continue [OF c r(1)])
  have "\<exists>st'. toolLoop E cl rq p fs ?st = Inr st' \<and>
           ls_iterationCount st' = e_MAX_TOOL_ITERATIONS E \<and>
           \<not> noToolCalls (ls_currentResponse st')"
  proof (rule Suc.hyps(1))
    show "d = e_MAX_TOOL_ITERATIONS E - ls_iterationCount ?st"
      using Suc.hyps(2) by (simp add: passState_fields)
    show "\<not> noToolCalls (ls_currentResponse ?st)" using r(2) by (simp add: passState_fields)
    show "ls_iterationCount ?st \<le> e_MAX_TOOL_ITERATIONS E" using lt by (simp add: passState_fields)
  qed
  then show ?case by (simp add: step)
qed

subsection \<open>The request as a whole\<close>

lemma initialState_fields:
  "ls_iterationCount (initialState E rq p r) = 0"
  "ls_currentResponse (initialState E rq p r) = r"
  "ls_tokens (initialState E rq p r) = initialTokens r"
  "ls_currentMessages (initialState E rq p r) = buildMessages rq"
  "length (modelSegments (ls_timeSegments (initialState E rq p r))) = 1"
  by (simp_all add: initialState_def checkForForcedToolUsage_fields
        checkForForcedToolUsage_iterationCount modelSegments_def)

lemma finalResult_timing:
  "tm_iterations (pr_timing (finalResult E rq st)) = ls_iterationCount st + 1"
  "tm_timeSegments (pr_timing (finalResult E rq st)) = ls_timeSegments st"
  by (simp_all add: finalResult_def)

lemma executeRequest_buffered:
  assumes "requestBaseUrl E rq \<noteq> []" "\<not> rq_stream rq"
      and "e_chatCreate E (requestClient E rq) 0 (initialPayload E rq) = Inr r"
      and "toolLoop E (requestClient E rq) rq (initialPayload E rq) (forcedToolsOf E rq)
             (initialState E rq (initialPayload E rq) r) = Inr st"
  shows "executeRequest E rq = Inr (Buffered (finalResult E rq st))"
  using assms by (simp add: executeRequest_def tryRequest_def Let_def)

lemma executeRequest_Buffered_D:
  assumes "executeRequest E rq = Inr (Buffered res)"
  shows "\<exists>r st. toolLoop E (requestClient E rq) rq (initialPayload E rq) (forcedToolsOf E rq)
             (initialState E rq (initialPayload E rq) r) = Inr st \<and> res = finalResult E rq st"
  using assms
  by (auto simp: executeRequest_def tryRequest_def Let_def streamDirect_def streamAfterTools_def
           split: if_splits sum.splits option.splits)

lemma executeRequest_Streaming_D:
  assumes "executeRequest E rq = Inr (Streaming se)"
  shows "pv_iterations (so_providerTiming (se_output se)) = None \<or>
         (\<exists>r st. toolLoop E (requestClient E rq) rq (initialPayload E rq) (forcedToolsOf E rq)
             (initialState E rq (initialPayload E rq) r) = Inr st \<and>
             pv_iterations (so_providerTiming (se_output se)) = Some (ls_iterationCount st + 1))"
proof -
  from assms have t: "tryRequest E (requestClient E rq) rq = Inr (Streaming se)"
    by (simp add: executeRequest_def split: if_splits sum.splits)
  show ?thesis
  proof (cases "rq_stream rq \<and> (buildTools rq = None \<or> \<not> hasActiveTools E rq)")
    case True
    then have "streamDirect E (requestClient E rq) rq (initialPayload E rq) = Inr (Streaming se)"
      using t by (simp add: tryRequest_def Let_def)
    then have "pv_iterations (so_providerTiming (se_output se)) = None"
      by (auto simp: streamDirect_def split: option.splits)
    then show ?thesis by simp
  next
    case False
    then obtain r st where
      l: "toolLoop E (requestClient E rq) rq (initialPayload E rq) (forcedToolsOf E rq)
             (initialState E rq (initialPayload E rq) r) = Inr st" and
      s: "streamAfterTools E (requestClient E rq) rq (initialPayload E rq) st = Inr (Streaming se)"
      using t by (auto simp: tryRequest_def Let_def split: sum.splits if_splits)
    from s have "pv_iterations (so_providerTiming (se_output se)) = Some (ls_iterationCount st + 1)"
      by (auto simp: streamAfterTools_def Let_def split: option.splits)
    with l show ?thesis by blast
  qed
qed

subsection \<open>Tool calls that throw\<close>

text \<open>An invocation that throws is one of the ways the \<^verbatim>\<open>try\<close> block throws.\<close>

lemma tryToolCall_executeTool_throws:
  assumes "e_JSON_parse E (tc_arguments toolCall) = Inr toolArgs"
      and "find (\<lambda>t. td_id t = tc_name toolCall) (requestTools rq) = Some tool"
      and "e_prepareToolExecution E tool toolArgs rq = Inr (toolParams, executionParams)"
      and "e_executeTool E k i (tc_name toolCall) executionParams = Inl error"
  shows "tryToolCall E rq k i toolCall = Inl error"
  using assms by (simp add: tryToolCall_def Let_def)

text \<open>
  The recorded executions of a batch are those its calls return, in the order of the
  calls, and a pass appends their records, time segments and messages to the state.
\<close>

lemma fulfilledValues_map_filter:
  "fulfilledValues (map (\<lambda>(i, c). Fulfilled (g i c)) xs) = List.map_filter (\<lambda>(i, c). g i c) xs"
proof (induction xs)
  case Nil
  show ?case by (simp add: map_filter_simps)
next
  case (Cons x xs)
  obtain i c where x: "x = (i, c)" by (cases x)
  show ?case by (cases "g i c") (simp_all add: x Cons map_filter_simps)
qed

lemma executed_eq:
  "executed E rq k calls =
     List.map_filter (\<lambda>(j, c). runToolCall E rq k j c) (enumerate 0 calls)"
  by (simp add: executed_def executeBatch_def fulfilledValues_map_filter)

lemma fulfilledValues_memI:
  "Fulfilled (Some v) \<in> set rs \<Longrightarrow> v \<in> set (fulfilledValues rs)"
  by (induction rs rule: fulfilledValues.induct) auto

lemma executed_memI:
  assumes "j < length calls" and "runToolCall E rq k j (calls ! j) = Some w"
  shows "w \<in> set (executed E rq k calls)"
proof -
  have "executeBatch E rq k calls ! j = Fulfilled (Some w)"
    using assms by (simp add: executeBatch_nth)
  then have "Fulfilled (Some w) \<in> set (executeBatch E rq k calls)"
    using assms(1) by (metis length_executeBatch nth_mem)
  then show ?thesis by (simp add: executed_def fulfilledValues_memI)
qed

lemma passState_records:
  "ls_toolCalls (passState E rq p fs calls r st) =
     ls_toolCalls st @ map toolCallRecord (executed E rq (ls_iterationCount st) calls)"
  "ls_timeSegments (passState E rq p fs calls r st) =
     ls_timeSegments st @ map toolSegment (executed E rq (ls_iterationCount st) calls) @
     [modelSegment E (ls_iterationCount st)]"
  "ls_currentMessages (passState E rq p fs calls r st) =
     ls_currentMessages st @ [assistantMessage calls] @
     map (toolMessage E) (executed E rq (ls_iterationCount st) calls)"
  "ls_toolResults (passState E rq p fs calls r st) =
     ls_toolResults st @ outputsOf (executed E rq (ls_iterationCount st) calls)"
  by (simp_all add: passState_def afterModelCall_fields runTools_fields beforeTools_fields
        runTools_iterationCount)

lemma passPayload_messages:
  "pl_messages (passPayload E rq p fs calls st) =
     ls_currentMessages st @ [assistantMessage calls] @
     map (toolMessage E) (executed E rq (ls_iterationCount st) calls)"
  by (simp add: passPayload_def nextPayload_def Let_def runTools_fields beforeTools_fields
        split: list.split)

text \<open>
  Claim C6. A tool call of a batch whose \<^verbatim>\<open>try\<close> block throws (its invocation throwing
  is one of the ways) returns an execution with the result
  \<^verbatim>\<open>{ success: false, error: message }\<close>, which is recorded against that call as a
  failure whose result is the structured error object. The batch has one settled result
  for each of its calls, in the order of the calls, each the outcome of its own call
  alone. The pass that holds the batch goes on to its model call whatever the tool calls
  did: it throws only what the model call throws, and when the model call returns the
  loop continues from a state that holds, after what was there and in the order of the
  calls, the record, the time segment and the tool message of the failed call and of
  every sibling that returned an execution; these messages are the ones the model call
  was sent.
\<close>

theorem tool_failure_absorbed:
  assumes "tryToolCall E rq k i toolCall = Inl error"
  shows "runToolCall E rq k i toolCall = Some (failedExecution E k i toolCall error) \<and>
     te_result (failedExecution E k i toolCall error) =
       \<lparr>tr_success = False, tr_output = None, tr_error = Some (toolErrorMessage error)\<rparr> \<and>
     toolCallRecord (failedExecution E k i toolCall error) =
       \<lparr>tcr_name = tc_name toolCall, tcr_arguments = JObj [],
        tcr_startTime = ISO (e_now E (ToolCallStart k i)),
        tcr_endTime = ISO (e_now E (ToolCallEnd k i)),
        tcr_duration = e_now E (ToolCallEnd k i) - e_now E (ToolCallStart k i),
        tcr_result = Some (JObj [(''error'', JBool True),
                                 (''message'', JStr (orElse (Some (toolErrorMessage error))
                                                       ''Tool execution failed'')),
                                 (''tool'', JStr (tc_name toolCall))]),
        tcr_success = False\<rparr> \<and>
     ls_toolCalls (recordSettled E st (Fulfilled (runToolCall E rq k i toolCall))) =
       ls_toolCalls st @ [toolCallRecord (failedExecution E k i toolCall error)] \<and>
     length (executeBatch E rq k calls) = length calls \<and>
     (\<forall>j < length calls.
        executeBatch E rq k calls ! j = Fulfilled (runToolCall E rq k j (calls ! j))) \<and>
     (responseToolCalls (ls_currentResponse st) = Some calls \<and> calls \<noteq> [] \<and>
      e_chatCreate E cl (Suc (ls_iterationCount st)) (passPayload E rq p fs calls st) = Inr r \<longrightarrow>
        loopBody E cl rq p fs st =
          LoopContinue (afterModelCall E rq fs (passPayload E rq p fs calls st) r
                          (runTools E rq calls (beforeTools rq st)))) \<and>
     (responseToolCalls (ls_currentResponse st) = Some calls \<and> ls_iterationCount st = k \<and>
      i < length calls \<and> calls ! i = toolCall \<longrightarrow>
        loopBody E cl rq p fs st =
          (case e_chatCreate E cl (Suc k) (passPayload E rq p fs calls st) of
             Inl thrownByModel \<Rightarrow> LoopThrow thrownByModel
           | Inr response \<Rightarrow> LoopContinue (passState E rq p fs calls response st))) \<and>
     (responseToolCalls (ls_currentResponse st) = Some calls \<and> ls_iterationCount st = k \<and>
      i < length calls \<and> calls ! i = toolCall \<and>
      e_chatCreate E cl (Suc k) (passPayload E rq p fs calls st) = Inr r \<longrightarrow>
        loopBody E cl rq p fs st = LoopContinue (passState E rq p fs calls r st) \<and>
        ls_currentResponse (passState E rq p fs calls r st) = r \<and>
        executed E rq k calls =
          List.map_filter (\<lambda>(j, c). runToolCall E rq k j c) (enumerate 0 calls) \<and>
        ls_toolCalls (passState E rq p fs calls r st) =
          ls_toolCalls st @ map toolCallRecord (executed E rq k calls) \<and>
        ls_timeSegments (passState E rq p fs calls r st) =
          ls_timeSegments st @ map toolSegment (executed E rq k calls) @ [modelSegment E k] \<and>
        ls_currentMessages (passState E rq p fs calls r st) =
          ls_currentMessages st @ [assistantMessage calls] @
          map (toolMessage E) (executed E rq k calls) \<and>
        pl_messages (passPayload E rq p fs calls st) =
          ls_currentMessages (passState E rq p fs calls r st) \<and>
        ls_toolResults (passState E rq p fs calls r st) =
          ls_toolResults st @ outputsOf (executed E rq k calls) \<and>
        failedExecution E k i toolCall error \<in> set (executed E rq k calls) \<and>
        (\<forall>j w. j < length calls \<and> runToolCall E rq k j (calls ! j) = Some w \<longrightarrow>
           w \<in> set (executed E rq k calls) \<and>
           toolCallRecord w \<in> set (ls_toolCalls (passState E rq p fs calls r st)) \<and>
           toolSegment w \<in> set (ls_timeSegments (passState E rq p fs calls r st)) \<and>
           toolMessage E w \<in> set (ls_currentMessages (passState E rq p fs calls r st))))"
proof -
  let ?v = "failedExecution E k i toolCall error"
  have 1: "runToolCall E rq k i toolCall = Some ?v"
    using assms by (simp add: runToolCall_def failedExecution_def Let_def)
  have 2: "te_result ?v =
       \<lparr>tr_success = False, tr_output = None, tr_error = Some (toolErrorMessage error)\<rparr>"
    by (simp add: failedExecution_def)
  have 3: "toolCallRecord ?v =
       \<lparr>tcr_name = tc_name toolCall, tcr_arguments = JObj [],
        tcr_startTime = ISO (e_now E (ToolCallStart k i)),
        tcr_endTime = ISO (e_now E (ToolCallEnd k i)),
        tcr_duration = e_now E (ToolCallEnd k i) - e_now E (ToolCallStart k i),
        tcr_result = Some (JObj [(''error'', JBool True),
                                 (''message'', JStr (orElse (Some (toolErrorMessage error))
                                                       ''Tool execution failed'')),
                                 (''tool'', JStr (tc_name toolCall))]),
        tcr_success = False\<rparr>"
    by (simp add: toolCallRecord_def resultContent_def failedExecution_def)
  have 4: "ls_toolCalls (recordSettled E st (Fulfilled (runToolCall E rq k i toolCall))) =
           ls_toolCalls st @ [toolCallRecord ?v]"
    by (simp add: 1 recordSettled_Some)
  have 5: "\<forall>j < length calls.
        executeBatch E rq k calls ! j = Fulfilled (runToolCall E rq k j (calls ! j))"
    by (simp add: executeBatch_nth)
  have 6: "responseToolCalls (ls_currentResponse st) = Some calls \<and> calls \<noteq> [] \<and>
      e_chatCreate E cl (Suc (ls_iterationCount st)) (passPayload E rq p fs calls st) = Inr r \<longrightarrow>
        loopBody E cl rq p fs st =
          LoopContinue (afterModelCall E rq fs (passPayload E rq p fs calls st) r
                          (runTools E rq calls (beforeTools rq st)))"
    by (auto simp: loopBody_calls)
  have 8: "responseToolCalls (ls_currentResponse st) = Some calls \<and> ls_iterationCount st = k \<and>
      i < length calls \<and> calls ! i = toolCall \<longrightarrow>
        loopBody E cl rq p fs st =
          (case e_chatCreate E cl (Suc k) (passPayload E rq p fs calls st) of
             Inl thrownByModel \<Rightarrow> LoopThrow thrownByModel
           | Inr response \<Rightarrow> LoopContinue (passState E rq p fs calls response st))"
    unfolding passState_def passPayload_def beforeTools_def
    by (auto simp: loopBody_def Let_def split: sum.split)
  have 7: "loopBody E cl rq p fs st = LoopContinue (passState E rq p fs calls r st) \<and>
        ls_currentResponse (passState E rq p fs calls r st) = r \<and>
        executed E rq k calls =
          List.map_filter (\<lambda>(j, c). runToolCall E rq k j c) (enumerate 0 calls) \<and>
        ls_toolCalls (passState E rq p fs calls r st) =
          ls_toolCalls st @ map toolCallRecord (executed E rq k calls) \<and>
        ls_timeSegments (passState E rq p fs calls r st) =
          ls_timeSegments st @ map toolSegment (executed E rq k calls) @ [modelSegment E k] \<and>
        ls_currentMessages (passState E rq p fs calls r st) =
          ls_currentMessages st @ [assistantMessage calls] @
          map (toolMessage E) (executed E rq k calls) \<and>
        pl_messages (passPayload E rq p fs calls st) =
          ls_currentMessages (passState E rq p fs calls r st) \<and>
        ls_toolResults (passState E rq p fs calls r st) =
          ls_toolResults st @ outputsOf (executed E rq k calls) \<and>
        ?v \<in> set (executed E rq k calls) \<and>
        (\<forall>j w. j < length calls \<and> runToolCall E rq k j (calls ! j) = Some w \<longrightarrow>
           w \<in> set (executed E rq k calls) \<and>
           toolCallRecord w \<in> set (ls_toolCalls (passState E rq p fs calls r st)) \<and>
           toolSegment w \<in> set (ls_timeSegments (passState E rq p fs calls r st)) \<and>
           toolMessage E w \<in> set (ls_currentMessages (passState E rq p fs calls r st)))"
    if h: "responseToolCalls (ls_currentResponse st) = Some calls" "ls_iterationCount st = k"
      "i < length calls" "calls ! i = toolCall"
      "e_chatCreate E cl (Suc k) (passPayload E rq p fs calls st) = Inr r"
  proof -
    have ne: "calls \<noteq> []" using h(3) by auto
    have body: "loopBody E cl rq p fs st = LoopContinue (passState E rq p fs calls r st)"
      using h(1,2,5) ne by (simp add: loopBody_continue)
    have mem: "w \<in> set (executed E rq k calls)"
      if "j < length calls" "runToolCall E rq k j (calls ! j) = Some w" for j w
      using that by (rule executed_memI)
    have v: "?v \<in> set (executed E rq k calls)"
      using mem [of i ?v] h(3,4) 1 by simp
    show ?thesis
      using body v mem
      by (auto simp: passState_records passState_fields passPayload_messages h(2)
            executed_eq [symmetric])
  qed
  show ?thesis
    apply (intro conjI)
           apply (rule 1)
          apply (rule 2)
         apply (rule 3)
        apply (rule 4)
       apply (rule length_executeBatch)
      apply (rule 5)
      apply (rule 6)
     apply (rule 8)
    apply (rule impI, elim conjE, rule 7; assumption)
    done
qed

text \<open>
  Two tool calls in one response, the first of which throws \<^verbatim>\<open>boom\<close>: the pass records
  the failure, then the result of the second call, and goes on with the model's answer.
\<close>

lemma initialState_toolCalls: "ls_toolCalls (initialState E rq p r) = []"
  by (simp add: initialState_def checkForForcedToolUsage_fields)

lemma flaky_first_pass:
  "responseToolCalls (ls_currentResponse
      (initialState flakyEnv raceRequest (initialPayload flakyEnv raceRequest)
         (callsResponse raceCalls))) = Some raceCalls"
  "ls_iterationCount
      (initialState flakyEnv raceRequest (initialPayload flakyEnv raceRequest)
         (callsResponse raceCalls)) = 0"
  "ls_toolCalls
      (initialState flakyEnv raceRequest (initialPayload flakyEnv raceRequest)
         (callsResponse raceCalls)) = []"
  "e_chatCreate flakyEnv cl (Suc 0) q = Inr (textResponse ''done'')"
proof -
  show "responseToolCalls (ls_currentResponse
      (initialState flakyEnv raceRequest (initialPayload flakyEnv raceRequest)
         (callsResponse raceCalls))) = Some raceCalls"
    by (simp add: initialState_fields responseToolCalls_def callsResponse_def)
  show "ls_iterationCount
      (initialState flakyEnv raceRequest (initialPayload flakyEnv raceRequest)
         (callsResponse raceCalls)) = 0"
    by (simp add: initialState_fields)
  show "ls_toolCalls
      (initialState flakyEnv raceRequest (initialPayload flakyEnv raceRequest)
         (callsResponse raceCalls)) = []"
    by (rule initialState_toolCalls)
  show "e_chatCreate flakyEnv cl (Suc 0) q = Inr (textResponse ''done'')"
    by (simp add: flakyEnv_def scriptedEnv_def raceScript_def)
qed

theorem tool_failure_absorbed_witness:
  "tryToolCall flakyEnv raceRequest 0 0 (toolCallOf ''a'' ''slow'' ''{}'') =
     Inl (ErrorObj ''boom'' None) \<and>
   map_option te_result (runToolCall flakyEnv raceRequest 0 0 (toolCallOf ''a'' ''slow'' ''{}'')) =
     Some \<lparr>tr_success = False, tr_output = None, tr_error = Some ''boom''\<rparr> \<and>
   map_option te_result (runToolCall flakyEnv raceRequest 0 1 (toolCallOf ''b'' ''fast'' ''{}'')) =
     Some \<lparr>tr_success = True, tr_output = Some (JStr ''fast''), tr_error = None\<rparr> \<and>
   length (executeBatch flakyEnv raceRequest 0 raceCalls) = 2 \<and>
   (\<exists>st'. loopBody flakyEnv (requestClient flakyEnv raceRequest) raceRequest
            (initialPayload flakyEnv raceRequest) []
            (initialState flakyEnv raceRequest (initialPayload flakyEnv raceRequest)
               (callsResponse raceCalls)) = LoopContinue st' \<and>
          ls_currentResponse st' = textResponse ''done'' \<and>
          map tcr_name (ls_toolCalls st') = [''slow'', ''fast''] \<and>
          map tcr_success (ls_toolCalls st') = [False, True] \<and>
          map tcr_result (ls_toolCalls st') =
            [Some (JObj [(''error'', JBool True), (''message'', JStr ''boom''),
                         (''tool'', JStr ''slow'')]),
             Some (JStr ''fast'')])"
proof -
  let ?c = "toolCallOf ''a'' ''slow'' ''{}''"
  let ?st = "initialState flakyEnv raceRequest (initialPayload flakyEnv raceRequest)
               (callsResponse raceCalls)"
  let ?cl = "requestClient flakyEnv raceRequest"
  let ?p = "initialPayload flakyEnv raceRequest"
  let ?st1 = "passState flakyEnv raceRequest ?p [] raceCalls (textResponse ''done'') ?st"
  have t: "tryToolCall flakyEnv raceRequest 0 0 ?c = Inl (ErrorObj ''boom'' None)"
    by (simp add: model_defs fixture_defs flakyEnv_def flakyTool_def raceRequest_def Let_def)
  have s: "map_option te_result (runToolCall flakyEnv raceRequest 0 1 (toolCallOf ''b'' ''fast'' ''{}'')) =
     Some \<lparr>tr_success = True, tr_output = Some (JStr ''fast''), tr_error = None\<rparr>"
    by (simp add: model_defs fixture_defs flakyEnv_def flakyTool_def raceRequest_def Let_def)
  have h: "responseToolCalls (ls_currentResponse ?st) = Some raceCalls \<and>
           ls_iterationCount ?st = 0 \<and> 0 < length raceCalls \<and> raceCalls ! 0 = ?c \<and>
           e_chatCreate flakyEnv ?cl (Suc 0) (passPayload flakyEnv raceRequest ?p [] raceCalls ?st) =
             Inr (textResponse ''done'')"
    by (simp add: flaky_first_pass) (simp add: raceCalls_def)
  note th = tool_failure_absorbed [OF t, where calls = raceCalls and fs = "[]" and st = ?st
      and cl = ?cl and p = ?p and r = "textResponse ''done''"]
  note run = th [THEN conjunct1]
  note res = th [THEN conjunct2, THEN conjunct1]
  note len = th [THEN conjunct2, THEN conjunct2, THEN conjunct2, THEN conjunct2, THEN conjunct1]
  note pass = th [THEN conjunct2, THEN conjunct2, THEN conjunct2, THEN conjunct2,
      THEN conjunct2, THEN conjunct2, THEN conjunct2, THEN conjunct2, THEN mp, OF h]
  note body = pass [THEN conjunct1]
  note cur = pass [THEN conjunct2, THEN conjunct1]
  note recs = pass [THEN conjunct2, THEN conjunct2, THEN conjunct2, THEN conjunct1]
  have ex: "map toolCallRecord (executed flakyEnv raceRequest 0 raceCalls) =
     [\<lparr>tcr_name = ''slow'', tcr_arguments = JObj [], tcr_startTime = ISO 0, tcr_endTime = ISO 0,
       tcr_duration = 0,
       tcr_result = Some (JObj [(''error'', JBool True), (''message'', JStr ''boom''),
                                (''tool'', JStr ''slow'')]),
       tcr_success = False\<rparr>,
      \<lparr>tcr_name = ''fast'', tcr_arguments = JObj [], tcr_startTime = ISO 0, tcr_endTime = ISO 0,
       tcr_duration = 0, tcr_result = Some (JStr ''fast''), tcr_success = True\<rparr>]"
    by (simp add: executed_def raceCalls_def model_defs fixture_defs flakyEnv_def flakyTool_def
          raceRequest_def idleClock_def enumerate_eq_zip Let_def)
  have r1: "map_option te_result (runToolCall flakyEnv raceRequest 0 0 ?c) =
     Some \<lparr>tr_success = False, tr_output = None, tr_error = Some ''boom''\<rparr>"
    using res by (simp add: run toolErrorMessage_def)
  have l: "length (executeBatch flakyEnv raceRequest 0 raceCalls) = 2"
    using len by (simp add: raceCalls_def)
  have tc: "ls_toolCalls ?st1 = map toolCallRecord (executed flakyEnv raceRequest 0 raceCalls)"
    using recs by (simp add: flaky_first_pass(3))
  show ?thesis
    using t s r1 l body cur
    by (intro conjI exI [of _ ?st1]) (simp_all add: tc ex)
qed

subsection \<open>The number of passes\<close>








subsection \<open>The iteration cap\<close>

text \<open>
  Claim C8. The loop is a total function (its recursion is bounded by the distance of
  \<^verbatim>\<open>iterationCount\<close> to the cap), and when it returns, the count is at most the cap
  (started below it) and the loop has added one model time segment for each pass.
  A result of a request reports at most cap \<open>+ 1\<close> iterations. When every response holds
  tool calls, a buffered request still returns, after exactly as many passes as the cap
  allows, the last response still holding tool calls.
\<close>

theorem tool_loop_bounded:
  "(toolLoop E cl rq p fs st = Inr st' \<longrightarrow>
      ls_iterationCount st' \<le> max (ls_iterationCount st) (e_MAX_TOOL_ITERATIONS E) \<and>
      length (modelSegments (ls_timeSegments st')) =
        length (modelSegments (ls_timeSegments st)) +
        (ls_iterationCount st' - ls_iterationCount st)) \<and>
   (executeRequest E rq = Inr (Buffered res) \<longrightarrow>
      tm_iterations (pr_timing res) \<le> e_MAX_TOOL_ITERATIONS E + 1 \<and>
      length (modelSegments (tm_timeSegments (pr_timing res))) = tm_iterations (pr_timing res)) \<and>
   (executeRequest E rq = Inr (Streaming se) \<longrightarrow>
      (case pv_iterations (so_providerTiming (se_output se)) of
         None \<Rightarrow> True | Some n \<Rightarrow> n \<le> e_MAX_TOOL_ITERATIONS E + 1)) \<and>
   (requestBaseUrl E rq \<noteq> [] \<and> \<not> rq_stream rq \<and>
    (\<forall>n q. \<exists>r. e_chatCreate E (requestClient E rq) n q = Inr r \<and> \<not> noToolCalls r) \<longrightarrow>
      (\<exists>st. executeRequest E rq = Inr (Buffered (finalResult E rq st)) \<and>
            ls_iterationCount st = e_MAX_TOOL_ITERATIONS E \<and>
            tm_iterations (pr_timing (finalResult E rq st)) = e_MAX_TOOL_ITERATIONS E + 1 \<and>
            \<not> noToolCalls (ls_currentResponse st)))"
proof -
  have a: "toolLoop E cl rq p fs st = Inr st' \<longrightarrow>
      ls_iterationCount st' \<le> max (ls_iterationCount st) (e_MAX_TOOL_ITERATIONS E) \<and>
      length (modelSegments (ls_timeSegments st')) =
        length (modelSegments (ls_timeSegments st)) +
        (ls_iterationCount st' - ls_iterationCount st)"
    using toolLoop_bound [of E cl rq p fs st st'] by simp
  have b: "tm_iterations (pr_timing res) \<le> e_MAX_TOOL_ITERATIONS E + 1 \<and>
      length (modelSegments (tm_timeSegments (pr_timing res))) = tm_iterations (pr_timing res)"
    if "executeRequest E rq = Inr (Buffered res)"
  proof -
    from executeRequest_Buffered_D [OF that] obtain r st1 where
      l: "toolLoop E (requestClient E rq) rq (initialPayload E rq) (forcedToolsOf E rq)
             (initialState E rq (initialPayload E rq) r) = Inr st1" and res: "res = finalResult E rq st1"
      by blast
    from toolLoop_bound [OF l] show ?thesis
      by (simp add: res finalResult_timing initialState_fields)
  qed
  have c: "case pv_iterations (so_providerTiming (se_output se)) of
         None \<Rightarrow> True | Some n \<Rightarrow> n \<le> e_MAX_TOOL_ITERATIONS E + 1"
    if "executeRequest E rq = Inr (Streaming se)"
    using executeRequest_Streaming_D [OF that]
  proof
    assume "pv_iterations (so_providerTiming (se_output se)) = None"
    then show ?thesis by simp
  next
    assume "\<exists>r st. toolLoop E (requestClient E rq) rq (initialPayload E rq) (forcedToolsOf E rq)
             (initialState E rq (initialPayload E rq) r) = Inr st \<and>
             pv_iterations (so_providerTiming (se_output se)) = Some (ls_iterationCount st + 1)"
    then obtain r st1 where
      l: "toolLoop E (requestClient E rq) rq (initialPayload E rq) (forcedToolsOf E rq)
             (initialState E rq (initialPayload E rq) r) = Inr st1" and
      i: "pv_iterations (so_providerTiming (se_output se)) = Some (ls_iterationCount st1 + 1)"
      by blast
    from toolLoop_bound [OF l] show ?thesis by (simp add: i initialState_fields)
  qed
  have d: "\<exists>st. executeRequest E rq = Inr (Buffered (finalResult E rq st)) \<and>
            ls_iterationCount st = e_MAX_TOOL_ITERATIONS E \<and>
            tm_iterations (pr_timing (finalResult E rq st)) = e_MAX_TOOL_ITERATIONS E + 1 \<and>
            \<not> noToolCalls (ls_currentResponse st)"
    if h: "requestBaseUrl E rq \<noteq> []" "\<not> rq_stream rq"
      "\<forall>n q. \<exists>r. e_chatCreate E (requestClient E rq) n q = Inr r \<and> \<not> noToolCalls r"
  proof -
    from h(3) obtain r where
      r: "e_chatCreate E (requestClient E rq) 0 (initialPayload E rq) = Inr r" "\<not> noToolCalls r"
      by blast
    from toolLoop_cap [OF h(3), of "initialState E rq (initialPayload E rq) r" rq
        "initialPayload E rq" "forcedToolsOf E rq"] r(2)
    obtain st1 where st1: "toolLoop E (requestClient E rq) rq (initialPayload E rq)
        (forcedToolsOf E rq) (initialState E rq (initialPayload E rq) r) = Inr st1"
      "ls_iterationCount st1 = e_MAX_TOOL_ITERATIONS E" "\<not> noToolCalls (ls_currentResponse st1)"
      by (auto simp: initialState_fields)
    from executeRequest_buffered [OF h(1,2) r(1) st1(1)] st1 show ?thesis
      by (intro exI [of _ st1]) (simp add: finalResult_timing)
  qed
  show ?thesis using a b c d by blast
qed

text \<open>The model that always asks for a tool, under the cap of two.\<close>

theorem tool_loop_bounded_witness:
  "\<exists>st. executeRequest capEnv raceRequest = Inr (Buffered (finalResult capEnv raceRequest st)) \<and>
     ls_iterationCount st = 2 \<and>
     tm_iterations (pr_timing (finalResult capEnv raceRequest st)) = 3 \<and>
     \<not> noToolCalls (ls_currentResponse st)"
proof -
  have 1: "requestBaseUrl capEnv raceRequest \<noteq> []"
    by (simp add: model_defs fixture_defs capEnv_def raceRequest_def)
  have 2: "\<not> rq_stream raceRequest"
    by (simp add: fixture_defs raceRequest_def)
  have 3: "\<forall>n q. \<exists>r. e_chatCreate capEnv (requestClient capEnv raceRequest) n q = Inr r \<and>
               \<not> noToolCalls r"
    by (simp add: capEnv_def scriptedEnv_def loopingScript_def noToolCalls_def
          responseToolCalls_def callsResponse_def)
  have 4: "e_MAX_TOOL_ITERATIONS capEnv = 2"
    by (simp add: capEnv_def scriptedEnv_def)
  from tool_loop_bounded [of capEnv _ raceRequest] 1 2 3 4 show ?thesis by auto
qed

subsection \<open>Token totals\<close>

lemma addUsage_fields:
  "tk_input (addUsage t r) = tk_input t + tk_input (initialTokens r)"
  "tk_output (addUsage t r) = tk_output t + tk_output (initialTokens r)"
  "tk_total (addUsage t r) = tk_total t + tk_total (initialTokens r)"
  by (simp_all add: addUsage_def initialTokens_def split: option.split)

lemma race_first_pass:
  "\<exists>st'. loopBody raceEnv (requestClient raceEnv raceRequest) raceRequest
           (initialPayload raceEnv raceRequest) []
           (initialState raceEnv raceRequest (initialPayload raceEnv raceRequest)
              (callsResponse raceCalls)) = LoopContinue st' \<and>
         ls_currentResponse st' = textResponse ''done''"
proof -
  let ?st = "initialState raceEnv raceRequest (initialPayload raceEnv raceRequest)
              (callsResponse raceCalls)"
  have r: "responseToolCalls (ls_currentResponse ?st) = Some raceCalls"
    by (simp add: initialState_fields responseToolCalls_def callsResponse_def)
  have ne: "raceCalls \<noteq> []" by (simp add: raceCalls_def)
  have c: "e_chatCreate raceEnv (requestClient raceEnv raceRequest) (Suc (ls_iterationCount ?st))
             (passPayload raceEnv raceRequest (initialPayload raceEnv raceRequest) [] raceCalls ?st) =
           Inr (textResponse ''done'')"
    by (simp add: raceEnv_def scriptedEnv_def raceScript_def)
  show ?thesis
    by (simp add: loopBody_continue [OF r ne c] passState_fields)
qed

text \<open>
  Claim C2, as the code has it. Every accumulation step adds the response's reported
  prompt, completion and total token counts (a missing one counting 0) to the three
  running totals, each on its own: the first response sets them, every pass that goes on
  adds the usage of its response, and nothing else changes them. So
  \<open>total = input + output\<close> holds after a step when it held before and the response
  reports a total that is the sum of its two counts. The loop keeps no running cost,
  and the buffered result carries none.
\<close>

theorem token_totals_additive:
  "tk_input (addUsage t r) = tk_input t + tk_input (initialTokens r) \<and>
   tk_output (addUsage t r) = tk_output t + tk_output (initialTokens r) \<and>
   tk_total (addUsage t r) = tk_total t + tk_total (initialTokens r) \<and>
   ls_tokens (initialState E rq p r) = initialTokens r \<and>
   (loopBody E cl rq p fs st = LoopContinue st' \<longrightarrow>
      ls_tokens st' = addUsage (ls_tokens st) (ls_currentResponse st')) \<and>
   (loopBody E cl rq p fs st = LoopBreak st' \<longrightarrow> ls_tokens st' = ls_tokens st) \<and>
   (tk_total t = tk_input t + tk_output t \<and> consistentUsage r \<longrightarrow>
      tk_total (addUsage t r) = tk_input (addUsage t r) + tk_output (addUsage t r)) \<and>
   pr_tokens (finalResult E rq st) = ls_tokens st \<and>
   pr_cost (finalResult E rq st) = None"
proof -
  have c: "ls_tokens st' = addUsage (ls_tokens st) (ls_currentResponse st')"
    if "loopBody E cl rq p fs st = LoopContinue st'"
    using that by (rule loopBody_Continue_D)
      (simp add: afterModelCall_fields runTools_fields beforeTools_fields)
  have b: "ls_tokens st' = ls_tokens st" if "loopBody E cl rq p fs st = LoopBreak st'"
  proof (cases "noToolCalls (ls_currentResponse st)")
    case True
    then show ?thesis using that by (auto simp: loopBody_break beforeTools_fields)
  next
    case False
    then obtain calls where "responseToolCalls (ls_currentResponse st) = Some calls" "calls \<noteq> []"
      by (auto simp: noToolCalls_iff)
    then show ?thesis using that by (simp add: loopBody_calls split: sum.splits)
  qed
  show ?thesis
    using b c
    by (simp add: addUsage_fields initialState_fields consistentUsage_def finalResult_def)
qed

text \<open>
  Claim C2 as stated fails: a response reporting 3 prompt tokens, 2 completion tokens and
  a total of 9 leaves \<open>total = 9\<close> beside \<open>input + output = 5\<close>.
\<close>

theorem token_totals_additive_counterexample:
  "executeRequest oddEnv plainRequest = Inr (Buffered oddResult) \<and>
   tk_total (pr_tokens oddResult) = 9 \<and>
   tk_input (pr_tokens oddResult) + tk_output (pr_tokens oddResult) = 5"
  by (simp add: model_defs fixture_defs oddEnv_def oddScript_def oddResult_def idleClock_def
        autoPrepared_def initialSegment_def toolLoop.simps noToolCalls_def Let_def)

theorem token_totals_additive_witness:
  "addUsage \<lparr>tk_input = 3, tk_output = 2, tk_total = 5\<rparr> (textResponse ''done'') =
     \<lparr>tk_input = 6, tk_output = 4, tk_total = 10\<rparr> \<and>
   (\<exists>st'. loopBody raceEnv (requestClient raceEnv raceRequest) raceRequest
           (initialPayload raceEnv raceRequest) []
           (initialState raceEnv raceRequest (initialPayload raceEnv raceRequest)
              (callsResponse raceCalls)) = LoopContinue st' \<and>
         ls_tokens st' = \<lparr>tk_input = 6, tk_output = 4, tk_total = 10\<rparr>)"
proof -
  let ?t = "\<lparr>tk_input = 3, tk_output = 2, tk_total = 5\<rparr>"
  let ?st = "initialState raceEnv raceRequest (initialPayload raceEnv raceRequest)
              (callsResponse raceCalls)"
  have i: "initialTokens (textResponse ''done'') = ?t" "initialTokens (callsResponse raceCalls) = ?t"
    by (simp_all add: initialTokens_def textResponse_def callsResponse_def orZero_def)
  have h: "tk_total ?t = tk_input ?t + tk_output ?t \<and> consistentUsage (textResponse ''done'')"
    by (simp add: consistentUsage_def i)
  have a: "addUsage ?t (textResponse ''done'') = \<lparr>tk_input = 6, tk_output = 4, tk_total = 10\<rparr>"
    using token_totals_additive [of ?t "textResponse ''done''"] h
    by (cases "addUsage ?t (textResponse ''done'')") (simp add: i)
  from race_first_pass obtain st' where
    s: "loopBody raceEnv (requestClient raceEnv raceRequest) raceRequest
           (initialPayload raceEnv raceRequest) [] ?st = LoopContinue st'"
       "ls_currentResponse st' = textResponse ''done''"
    by blast
  from token_totals_additive [where E = raceEnv and rq = raceRequest
      and p = "initialPayload raceEnv raceRequest" and cl = "requestClient raceEnv raceRequest"
      and fs = "[]" and st = ?st and st' = st'] s
  have "ls_tokens st' = addUsage ?t (textResponse ''done'')"
    by (simp add: i initialState_fields)
  with a s(1) show ?thesis by (intro conjI exI [of _ st']) simp_all
qed

subsection \<open>Requests with no tools\<close>

lemma updateContent_initialContent:
  "updateContent rq r (initialContent rq r) = initialContent rq r"
  by (simp add: updateContent_def initialContent_def cleaned_def truthyStr_def orEmpty_def Let_def
        split: option.split)

lemma stripLitellmPrefix_prefixed: "stripLitellmPrefix (''litellm/'' @ m) = m"
  by (simp add: stripLitellmPrefix_def)

lemma no_tools_payload:
  assumes "requestTools rq = []"
  shows "initialPayload E rq = basePayload rq" "forcedToolsOf E rq = []" "buildTools rq = None"
proof -
  show b: "buildTools rq = None"
    using assms by (simp add: buildTools_def requestTools_def split: option.splits)
  then have "prepareTools E rq = None" by (simp add: prepareTools_def)
  then show "initialPayload E rq = basePayload rq" "forcedToolsOf E rq = []"
    by (simp_all add: initialPayload_def activeTools_def forcedToolsOf_def)
qed

text \<open>
  Claim C3, as the code has it. For a request with no tool definitions, streaming
  disabled and an endpoint configured, the payload has no tools and its model is the
  request's model with the prefix \<^verbatim>\<open>litellm/\<close> stripped; when the first model call
  returns a response with no tool calls, the result holds the content, the tokens and the
  timing of that response (and no cost), reports one iteration, and its only time segment
  is the model segment of the first call.
\<close>

theorem request_without_tools:
  assumes "requestTools rq = []" and "\<not> rq_stream rq" and "requestBaseUrl E rq \<noteq> []"
      and "e_chatCreate E (requestClient E rq) 0 (basePayload rq) = Inr r"
      and "noToolCalls r"
  shows "initialPayload E rq = basePayload rq \<and>
         pl_model (basePayload rq) = stripLitellmPrefix (rq_model rq) \<and>
         (\<forall>m. rq_model rq = ''litellm/'' @ m \<longrightarrow> pl_model (basePayload rq) = m) \<and>
         pl_tools (basePayload rq) = None \<and>
         executeRequest E rq =
           Inr (Buffered
             \<lparr>pr_content = initialContent rq r,
              pr_model = rq_model rq,
              pr_tokens = initialTokens r,
              pr_toolCalls = None,
              pr_toolResults = None,
              pr_timing =
                \<lparr>tm_startTime = ISO (e_now E ProviderStart),
                 tm_endTime = ISO (e_now E ProviderEnd),
                 tm_duration = e_now E ProviderEnd - e_now E ProviderStart,
                 tm_modelTime = firstResponseTime E,
                 tm_toolsTime = 0,
                 tm_firstResponseTime = firstResponseTime E,
                 tm_iterations = 1,
                 tm_timeSegments =
                   [\<lparr>ts_type = ModelSeg, ts_name = ''Initial response'',
                     ts_startTime = e_now E InitialCall,
                     ts_endTime = e_now E InitialCall + firstResponseTime E,
                     ts_duration = firstResponseTime E\<rparr>]\<rparr>,
              pr_cost = None\<rparr>)"
proof -
  note np = no_tools_payload [OF assms(1)]
  let ?st0 = "initialState E rq (basePayload rq) r"
  have st0: "?st0 =
       \<lparr>ls_currentResponse = r, ls_content = initialContent rq r, ls_tokens = initialTokens r,
        ls_toolCalls = [], ls_toolResults = [], ls_currentMessages = buildMessages rq,
        ls_iterationCount = 0, ls_modelTime = firstResponseTime E, ls_toolsTime = 0,
        ls_timeSegments =
          [\<lparr>ts_type = ModelSeg, ts_name = ''Initial response'',
            ts_startTime = e_now E InitialCall,
            ts_endTime = e_now E InitialCall + firstResponseTime E,
            ts_duration = firstResponseTime E\<rparr>],
        ls_usedForcedTools = [], ls_hasUsedForcedTool = False\<rparr>"
    by (simp add: initialState_def checkForForcedToolUsage_def basePayload_def)
  have nt: "noToolCalls (ls_currentResponse ?st0)" using assms(5) by (simp add: initialState_fields)
  have bt: "beforeTools rq ?st0 = ?st0"
    by (simp add: beforeTools_def st0 updateContent_initialContent)
  have loop: "toolLoop E (requestClient E rq) rq (basePayload rq) [] ?st0 = Inr ?st0"
    by (subst toolLoop.simps) (simp add: loopBody_break [OF nt] bt)
  have ex: "executeRequest E rq = Inr (Buffered (finalResult E rq ?st0))"
    using executeRequest_buffered [of E rq r ?st0] assms loop by (simp add: np)
  have res: "finalResult E rq ?st0 =
             \<lparr>pr_content = initialContent rq r,
              pr_model = rq_model rq,
              pr_tokens = initialTokens r,
              pr_toolCalls = None,
              pr_toolResults = None,
              pr_timing =
                \<lparr>tm_startTime = ISO (e_now E ProviderStart),
                 tm_endTime = ISO (e_now E ProviderEnd),
                 tm_duration = e_now E ProviderEnd - e_now E ProviderStart,
                 tm_modelTime = firstResponseTime E,
                 tm_toolsTime = 0,
                 tm_firstResponseTime = firstResponseTime E,
                 tm_iterations = 1,
                 tm_timeSegments =
                   [\<lparr>ts_type = ModelSeg, ts_name = ''Initial response'',
                     ts_startTime = e_now E InitialCall,
                     ts_endTime = e_now E InitialCall + firstResponseTime E,
                     ts_duration = firstResponseTime E\<rparr>]\<rparr>,
              pr_cost = None\<rparr>"
    by (simp add: finalResult_def st0)
  have model: "pl_model (basePayload rq) = stripLitellmPrefix (rq_model rq)"
    "pl_tools (basePayload rq) = None"
    by (simp_all add: basePayload_def)
  have pre: "\<forall>m. rq_model rq = ''litellm/'' @ m \<longrightarrow> pl_model (basePayload rq) = m"
    using stripLitellmPrefix_prefixed by (simp add: model)
  show ?thesis
    unfolding ex res using np(1) model pre by simp
qed

text \<open>
  Claim C3 as stated fails: the returned object has no cost, and a model that answers a
  request with no tools by a tool call (here with arguments that do not parse) makes the
  loop run a pass: two iterations and a tool time segment.
\<close>

theorem request_without_tools_counterexample:
  "rq_tools plainRequest = None \<and> \<not> rq_stream plainRequest \<and>
   rq_model plainRequest = ''litellm/gpt-4'' \<and>
   executeRequest bareGhostEnv plainRequest = Inr (Buffered ghostResult) \<and>
   pr_cost ghostResult = None \<and>
   tm_iterations (pr_timing ghostResult) = 2 \<and>
   map ts_type (tm_timeSegments (pr_timing ghostResult)) = [ModelSeg, ToolSeg, ModelSeg]"
proof -
  have "executeRequest bareGhostEnv plainRequest = Inr (Buffered ghostResult)"
    by (simp add: model_defs fixture_defs bareGhostEnv_def idleClock_def ghostScript_def
        autoPrepared_def ghostResult_def toolLoop.simps string_of_nat_1 enumerate_eq_zip Let_def)
  then show ?thesis by (simp add: plainRequest_def ghostResult_def)
qed

theorem request_without_tools_witness:
  "pl_model (basePayload plainRequest) = ''gpt-4'' \<and>
   executeRequest unconfiguredEnv (plainRequest\<lparr>rq_azureEndpoint := Some ''http://llm/''\<rparr>) =
     Inr (Buffered
       \<lparr>pr_content = ''hi'', pr_model = ''litellm/gpt-4'',
        pr_tokens = \<lparr>tk_input = 3, tk_output = 2, tk_total = 5\<rparr>,
        pr_toolCalls = None, pr_toolResults = None,
        pr_timing =
          \<lparr>tm_startTime = ISO 0, tm_endTime = ISO 0, tm_duration = 0, tm_modelTime = 0,
           tm_toolsTime = 0, tm_firstResponseTime = 0, tm_iterations = 1,
           tm_timeSegments = [initialSegment]\<rparr>,
        pr_cost = None\<rparr>)"
proof -
  let ?rq = "plainRequest\<lparr>rq_azureEndpoint := Some ''http://llm/''\<rparr>"
  have 1: "requestTools ?rq = []" by (simp add: requestTools_def plainRequest_def)
  have 2: "\<not> rq_stream ?rq" by (simp add: plainRequest_def)
  have 3: "requestBaseUrl unconfiguredEnv ?rq \<noteq> []"
    by (simp add: requestBaseUrl_def orElse_def truthyStr_def orEmpty_def stripTrailingSlash_def)
  have 4: "e_chatCreate unconfiguredEnv (requestClient unconfiguredEnv ?rq) 0 (basePayload ?rq) =
           Inr (textResponse ''hi'')"
    by (simp add: unconfiguredEnv_def scriptedEnv_def helloScript_def)
  have 5: "noToolCalls (textResponse ''hi'')"
    by (simp add: noToolCalls_def responseToolCalls_def textResponse_def)
  have m: "rq_model ?rq = ''litellm/'' @ ''gpt-4''" by (simp add: plainRequest_def)
  from request_without_tools [OF 1 2 3 4 5] m
  show ?thesis
    by (simp add: initialContent_def initialTokens_def textResponse_def responseContent_def
          orEmpty_def orZero_def firstResponseTime_def unconfiguredEnv_def scriptedEnv_def
          idleClock_def initialSegment_def plainRequest_def basePayload_def
          stripLitellmPrefix_def Let_def)
qed

subsection \<open>Forced tools\<close>









end
